theory Spec2Isabelle
  imports Main
begin

section \<open>The decoded document\<close>

text \<open>
  \<^verbatim>\<open>yaml.load\<close> turns the configuration file into a tree of Python values. The
  model keeps the values a configuration document is made of: \<^verbatim>\<open>None\<close>, booleans,
  integers, strings, lists and dicts. A dict is an association list in insertion order;
  floats, dates and the other YAML scalars are outside the model. Strings are byte
  lists, which agrees with Python's strings on ASCII text.
\<close>

datatype yaml =
    YNull
  | YBool bool
  | YInt int
  | YStr string
  | YSeq "yaml list"
  | YMap "(yaml \<times> yaml) list"

type_synonym py_dict = "(yaml \<times> yaml) list"

text \<open>
  The exceptions the module can raise. \<^verbatim>\<open>KeyError\<close> carries the missing key and
  \<^verbatim>\<open>ValueError\<close> its message; the message of a \<^verbatim>\<open>TypeError\<close> is not modelled.
  \<open>FileNotFoundError\<close> is what \<^verbatim>\<open>open\<close> raises on a missing file and \<open>YAMLError\<close>
  what \<^verbatim>\<open>yaml.load\<close> raises on content that is not a YAML document.
\<close>

datatype py_error =
    KeyError string
  | TypeError
  | ValueError string
  | FileNotFoundError
  | YAMLError

definition and_then :: "py_error + 'a \<Rightarrow> ('a \<Rightarrow> py_error + 'b) \<Rightarrow> py_error + 'b" where
  "and_then r f = (case r of Inl e \<Rightarrow> Inl e | Inr v \<Rightarrow> f v)"

subsection \<open>Python dicts\<close>

text \<open>
  Lists and dicts are unhashable, so they cannot be dict keys. Python compares keys with
  \<^verbatim>\<open>==\<close>, under which \<^verbatim>\<open>True == 1\<close> and \<^verbatim>\<open>False == 0\<close>: \<open>key_norm\<close> maps a key to the
  representative of its class, and two keys are the same key when their representatives
  are equal.
\<close>

fun hashable :: "yaml \<Rightarrow> bool" where
  "hashable (YSeq xs) = False"
| "hashable (YMap kvs) = False"
| "hashable v = True"

fun key_norm :: "yaml \<Rightarrow> yaml" where
  "key_norm (YBool b) = YInt (if b then 1 else 0)"
| "key_norm v = v"

definition key_eq :: "yaml \<Rightarrow> yaml \<Rightarrow> bool" where
  "key_eq a b = (key_norm a = key_norm b)"

text \<open>\<^verbatim>\<open>d.get(k)\<close>: the value stored under the key, if any.\<close>

fun dict_get :: "py_dict \<Rightarrow> yaml \<Rightarrow> yaml option" where
  "dict_get [] k = None"
| "dict_get ((k', v') # d) k = (if key_eq k' k then Some v' else dict_get d k)"

text \<open>
  \<^verbatim>\<open>d[k] = v\<close>: an existing key keeps its position (and the key object first inserted)
  and takes the new value; a new key is appended.
\<close>

fun dict_set :: "py_dict \<Rightarrow> yaml \<Rightarrow> yaml \<Rightarrow> py_dict" where
  "dict_set [] k v = [(k, v)]"
| "dict_set ((k', v') # d) k v =
     (if key_eq k' k then (k', v) # d else (k', v') # dict_set d k v)"

text \<open>
  \<^verbatim>\<open>dict(pairs)\<close> and \<^verbatim>\<open>OrderedDict(pairs)\<close> over a lazily produced sequence: each item is
  produced (\<open>gen\<close> may raise), its key is hashed (\<^verbatim>\<open>TypeError\<close> when unhashable) and
  the pair is stored, before the next item is produced.
\<close>

fun dict_from :: "('a \<Rightarrow> py_error + yaml \<times> yaml) \<Rightarrow> py_dict \<Rightarrow> 'a list \<Rightarrow> py_error + py_dict" where
  "dict_from gen d [] = Inr d"
| "dict_from gen d (x # xs) =
     (case gen x of
        Inl e \<Rightarrow> Inl e
      | Inr (k, v) \<Rightarrow> if hashable k then dict_from gen (dict_set d k v) xs else Inl TypeError)"

subsection \<open>Subscripting, membership, iteration\<close>

text \<open>
  \<^verbatim>\<open>obj['key']\<close> with a string key: a dict gives the value or raises \<^verbatim>\<open>KeyError\<close>; a
  list, a string, a number, a boolean or \<^verbatim>\<open>None\<close> raises \<^verbatim>\<open>TypeError\<close>.
\<close>

fun subscript :: "yaml \<Rightarrow> string \<Rightarrow> py_error + yaml" where
  "subscript (YMap d) k = (case dict_get d (YStr k) of None \<Rightarrow> Inl (KeyError k) | Some v \<Rightarrow> Inr v)"
| "subscript v k = Inl TypeError"

fun is_substring :: "string \<Rightarrow> string \<Rightarrow> bool" where
  "is_substring p [] = (p = [])"
| "is_substring p (c # s) = (take (length p) (c # s) = p \<or> is_substring p s)"

text \<open>
  \<^verbatim>\<open>'key' in obj\<close>: key membership for a dict, element membership for a list, substring
  test for a string, \<^verbatim>\<open>TypeError\<close> for the values that are not containers.
\<close>

fun contains :: "string \<Rightarrow> yaml \<Rightarrow> py_error + bool" where
  "contains k (YMap d) = Inr (dict_get d (YStr k) \<noteq> None)"
| "contains k (YSeq xs) = Inr (YStr k \<in> set xs)"
| "contains k (YStr s) = Inr (is_substring k s)"
| "contains k v = Inl TypeError"

text \<open>
  Iteration (\<^verbatim>\<open>for x in obj\<close>, \<^verbatim>\<open>zip(obj, ...)\<close>): a list yields its elements, a string
  its characters, a dict its keys; the other values are not iterable.
\<close>

fun py_iter :: "yaml \<Rightarrow> py_error + yaml list" where
  "py_iter (YSeq xs) = Inr xs"
| "py_iter (YStr s) = Inr (map (\<lambda>c. YStr [c]) s)"
| "py_iter (YMap d) = Inr (map fst d)"
| "py_iter v = Inl TypeError"

text \<open>\<^verbatim>\<open>zip(a, b)\<close>: both arguments are iterated, the shorter one ends the pairing.\<close>

definition py_zip :: "yaml \<Rightarrow> yaml \<Rightarrow> py_error + (yaml \<times> yaml) list" where
  "py_zip a b = and_then (py_iter a) (\<lambda>xs. and_then (py_iter b) (\<lambda>ys. Inr (zip xs ys)))"

text \<open>A list comprehension \<^verbatim>\<open>[f(x) for x in xs]\<close>: the first exception ends it.\<close>

fun map_result :: "('a \<Rightarrow> py_error + 'b) \<Rightarrow> 'a list \<Rightarrow> py_error + 'b list" where
  "map_result f [] = Inr []"
| "map_result f (x # xs) =
     (case f x of
        Inl e \<Rightarrow> Inl e
      | Inr y \<Rightarrow> (case map_result f xs of Inl e \<Rightarrow> Inl e | Inr ys \<Rightarrow> Inr (y # ys)))"

section \<open>The domain objects\<close>

text \<open>
  Modelled from the spec: the classes \<^verbatim>\<open>Facts\<close>, \<^verbatim>\<open>Dimension\<close> and \<^verbatim>\<open>Cube\<close> are
  imported from \<^verbatim>\<open>.models\<close>, which is not among the sources. Following section 3 of the
  specification they are value objects that hold the fields they are constructed with.
  Python does not check the fields' types, so a field holds whatever value the document
  has at that place.
\<close>

record Facts =
  table_name :: yaml
  keys :: py_dict
  measures :: yaml

record Dimension =
  name :: yaml
  displayName :: yaml
  columns :: py_dict

record Cube =
  name :: yaml
  source :: yaml
  facts :: "Facts list"
  dimensions :: "Dimension list"

section \<open>Paths, environment and files\<close>

text \<open>
  \<^verbatim>\<open>os.path.join\<close> on a POSIX system: a component that starts with a slash replaces what
  precedes it; otherwise it is appended, after a slash unless the path so far is empty
  or ends with one.
\<close>

definition path_join2 :: "string \<Rightarrow> string \<Rightarrow> string" where
  "path_join2 a b =
     (if b \<noteq> [] \<and> hd b = CHR ''/'' then b
      else if a = [] \<or> last a = CHR ''/'' then a @ b
      else a @ ''/'' @ b)"

definition path_join :: "string \<Rightarrow> string list \<Rightarrow> string" where
  "path_join a ps = foldl path_join2 a ps"

text \<open>
  What the module sees of the machine: the environment variables, the directory
  \<^verbatim>\<open>expanduser("~")\<close> resolves to, and the regular files. A file is represented by what
  \<^verbatim>\<open>yaml.load\<close> makes of its content: a document tree, or a \<open>YAMLError\<close>. Directories,
  permissions and files that change between two calls are outside the model.
\<close>

datatype file_content = Malformed | Document yaml

record world =
  environ :: "string \<rightharpoonup> string"
  home :: string
  files :: "string \<rightharpoonup> file_content"

text \<open>The file system calls a function makes, in order.\<close>

datatype io_event = IsFile string | Open string | YamlLoad string | Close string

section \<open>ConfigParser\<close>

record ConfigParser =
  cube_path :: string
  file_name :: string
  web_config_file_name :: string

text \<open>\<^verbatim>\<open>ConfigParser._get_cube_path\<close> (an Isabelle name cannot start with an underscore).\<close>

definition get_cube_path :: "world \<Rightarrow> string" where
  "get_cube_path w =
     (let home_directory =
        (case environ w ''OLAPY_PATH'' of Some v \<Rightarrow> v | None \<Rightarrow> home w)
      in path_join home_directory [''olapy-data'', ''cubes''])"

text \<open>
  \<^verbatim>\<open>ConfigParser.__init__\<close>. The arguments are given explicitly; \<^verbatim>\<open>None\<close> and the empty
  string are both false in \<^verbatim>\<open>if cube_path:\<close>.
\<close>

definition init :: "world \<Rightarrow> string option \<Rightarrow> string \<Rightarrow> string \<Rightarrow> ConfigParser" where
  "init w cube_path_arg file_name_arg web_config_file_name_arg =
     \<lparr> cube_path =
         (case cube_path_arg of
            Some p \<Rightarrow> if p \<noteq> [] then p else get_cube_path w
          | None \<Rightarrow> get_cube_path w),
       file_name = file_name_arg,
       web_config_file_name = web_config_file_name_arg \<rparr>"

definition init_default :: "world \<Rightarrow> ConfigParser" where
  "init_default w = init w None ''cubes-config.yml'' ''web_cube_config.xml''"

definition get_config_file_path :: "ConfigParser \<Rightarrow> string" where
  "get_config_file_path self = path_join (cube_path self) [file_name self]"

definition config_file_exists :: "world \<Rightarrow> ConfigParser \<Rightarrow> io_event list \<times> bool" where
  "config_file_exists w self =
     (let path = get_config_file_path self in ([IsFile path], files w path \<noteq> None))"

text \<open>
  \<^verbatim>\<open>with open(path) as config_file: config = yaml.load(config_file); body\<close>. Opening a
  missing file raises; once the file is open it is closed whatever happens in the block,
  and an exception raised in the block propagates after that.
\<close>

definition with_config ::
  "world \<Rightarrow> string \<Rightarrow> (yaml \<Rightarrow> py_error + 'a) \<Rightarrow> io_event list \<times> (py_error + 'a)" where
  "with_config w path body =
     (case files w path of
        None \<Rightarrow> ([Open path], Inl FileNotFoundError)
      | Some Malformed \<Rightarrow> ([Open path, YamlLoad path, Close path], Inl YAMLError)
      | Some (Document config) \<Rightarrow> ([Open path, YamlLoad path, Close path], body config))"

text \<open>
  \<^verbatim>\<open>ConfigParser.xmla_authentication\<close>. Only the lookup is inside the \<^verbatim>\<open>try\<close>; the value
  found under the key is returned as it is.
\<close>

definition xmla_authentication :: "world \<Rightarrow> ConfigParser \<Rightarrow> io_event list \<times> (py_error + yaml)" where
  "xmla_authentication w self =
     (let (t, ex) = config_file_exists w self in
      if ex then
        (let (t', r) = with_config w (get_config_file_path self)
           (\<lambda>config. case subscript config ''xmla_authentication'' of
                        Inl e \<Rightarrow> Inr (YBool False)
                      | Inr v \<Rightarrow> Inr v)
         in (t @ t', r))
      else (t, Inr (YBool False)))"

text \<open>
  \<^verbatim>\<open>ConfigParser.get_cubes_names\<close>. The dict display is inside the \<^verbatim>\<open>try\<close>: a missing key,
  a document that is not a dict and an unhashable name all end in the \<^verbatim>\<open>ValueError\<close>.
\<close>

definition get_cubes_names :: "world \<Rightarrow> ConfigParser \<Rightarrow> io_event list \<times> (py_error + py_dict)" where
  "get_cubes_names w self =
     (let file_path = get_config_file_path self in
      with_config w file_path
        (\<lambda>config.
           case and_then (subscript config ''name'') (\<lambda>n.
                and_then (subscript config ''source'') (\<lambda>s.
                dict_from Inr [] [(n, s)])) of
             Inl e \<Rightarrow> Inl (ValueError ''missed name or source tags'')
           | Inr d \<Rightarrow> Inr d))"

subsection \<open>Building the cube\<close>

text \<open>
  The \<^verbatim>\<open>Facts(...)\<close> call of \<^verbatim>\<open>_construct_cubes_excel\<close>. The keyword arguments are
  evaluated from left to right, each one looking \<^verbatim>\<open>config['facts']\<close> up again.
\<close>

definition build_facts :: "yaml \<Rightarrow> py_error + Facts" where
  "build_facts config =
     and_then (subscript config ''facts'') (\<lambda>f.
     and_then (subscript f ''table_name'') (\<lambda>tn.
     and_then (subscript config ''facts'') (\<lambda>f.
     and_then (subscript f ''keys'') (\<lambda>k.
     and_then (subscript k ''columns_names'') (\<lambda>cn.
     and_then (subscript config ''facts'') (\<lambda>f.
     and_then (subscript f ''keys'') (\<lambda>k.
     and_then (subscript k ''refs'') (\<lambda>rs.
     and_then (py_zip cn rs) (\<lambda>pairs.
     and_then (dict_from Inr [] pairs) (\<lambda>ks.
     and_then (subscript config ''facts'') (\<lambda>f.
     and_then (subscript f ''measures'') (\<lambda>m.
     Inr \<lparr> table_name = tn, keys = ks, measures = m \<rparr>))))))))))))"

text \<open>
  The pair the generator expression yields for one column:
  \<^verbatim>\<open>(column['name'], column['name'] if 'column_new_name' not in column else column['column_new_name'])\<close>.
\<close>

definition column_pair :: "yaml \<Rightarrow> py_error + yaml \<times> yaml" where
  "column_pair column =
     and_then (subscript column ''name'') (\<lambda>n.
     and_then (contains ''column_new_name'' column) (\<lambda>has.
     and_then (if \<not> has then subscript column ''name''
               else subscript column ''column_new_name'') (\<lambda>v.
     Inr (n, v))))"

text \<open>The \<^verbatim>\<open>Dimension(...)\<close> call for one entry of \<^verbatim>\<open>config['dimensions']\<close>.\<close>

definition build_dimension :: "yaml \<Rightarrow> py_error + Dimension" where
  "build_dimension dimension =
     and_then (subscript dimension ''dimension'') (\<lambda>d.
     and_then (subscript d ''name'') (\<lambda>n.
     and_then (subscript dimension ''dimension'') (\<lambda>d.
     and_then (subscript d ''displayName'') (\<lambda>dn.
     and_then (subscript dimension ''dimension'') (\<lambda>d.
     and_then (contains ''columns'' d) (\<lambda>has.
     and_then (if has then
                 and_then (subscript dimension ''dimension'') (\<lambda>d.
                 and_then (subscript d ''columns'') (\<lambda>cols.
                 and_then (py_iter cols) (\<lambda>cs.
                 dict_from column_pair [] cs)))
               else Inr []) (\<lambda>cols.
     Inr \<lparr> Dimension.name = n, displayName = dn, columns = cols \<rparr>)))))))"

text \<open>The body of the \<^verbatim>\<open>with\<close> block: the list of facts and the list of dimensions.\<close>

definition build_facts_dimensions :: "yaml \<Rightarrow> py_error + yaml \<times> Facts list \<times> Dimension list" where
  "build_facts_dimensions config =
     and_then (build_facts config) (\<lambda>f.
     and_then (subscript config ''dimensions'') (\<lambda>ds.
     and_then (py_iter ds) (\<lambda>entries.
     and_then (map_result build_dimension entries) (\<lambda>dims.
     Inr (config, [f], dims)))))"

text \<open>The \<^verbatim>\<open>return [Cube(...)]\<close> after the block.\<close>

definition build_cube :: "yaml \<times> Facts list \<times> Dimension list \<Rightarrow> py_error + Cube list" where
  "build_cube cfd =
     (case cfd of (config, fs, dims) \<Rightarrow>
        and_then (subscript config ''name'') (\<lambda>n.
        and_then (subscript config ''source'') (\<lambda>s.
        Inr [\<lparr> name = n, source = s, facts = fs, dimensions = dims \<rparr>])))"

text \<open>\<^verbatim>\<open>ConfigParser._construct_cubes_excel\<close>.\<close>

definition construct_cubes_excel :: "world \<Rightarrow> ConfigParser \<Rightarrow> io_event list \<times> (py_error + Cube list)" where
  "construct_cubes_excel w self =
     (let (t, r) = with_config w (get_config_file_path self) build_facts_dimensions
      in (t, and_then r build_cube))"

text \<open>\<^verbatim>\<open>ConfigParser.construct_cubes\<close>.\<close>

definition construct_cubes :: "world \<Rightarrow> ConfigParser \<Rightarrow> io_event list \<times> (py_error + Cube list)" where
  "construct_cubes w self =
     (let (t, ex) = config_file_exists w self in
      if ex then
        (let (t', r) = construct_cubes_excel w self in (t @ t', r))
      else (t, Inl (ValueError ''Config file doesn't exist'')))"

section \<open>Auxiliary notions and example inputs\<close>

text \<open>The keys of a dict (or of a list of pairs), each replaced by its representative.\<close>

fun norm_keys :: "(yaml \<times> 'b) list \<Rightarrow> yaml list" where
  "norm_keys [] = []"
| "norm_keys (p # ps) = key_norm (fst p) # norm_keys ps"

text \<open>The exceptions a failed lookup in the document raises.\<close>

fun is_lookup_error :: "py_error \<Rightarrow> bool" where
  "is_lookup_error (KeyError k) = True"
| "is_lookup_error TypeError = True"
| "is_lookup_error e = False"

text \<open>
  A machine with no \<^verbatim>\<open>OLAPY_PATH\<close>, the home directory \<^verbatim>\<open>/home/u\<close> and at most one file,
  at the default place of the configuration; the parser made with the default arguments
  on it; and a machine where \<^verbatim>\<open>OLAPY_PATH\<close> is set.
\<close>

definition example_world :: "file_content option \<Rightarrow> world" where
  "example_world f =
     \<lparr> environ = Map.empty, home = ''/home/u'',
       files = (\<lambda>p. if p = ''/home/u/olapy-data/cubes/cubes-config.yml'' then f else None) \<rparr>"

definition example_parser :: ConfigParser where
  "example_parser = init_default (example_world None)"

definition override_world :: world where
  "override_world =
     \<lparr> environ = [''OLAPY_PATH'' \<mapsto> ''/data''], home = ''/home/u'', files = Map.empty \<rparr>"

text \<open>A result that is a value, or one of the exceptions of a failed lookup.\<close>

definition only_lookup_errors :: "py_error + 'a \<Rightarrow> bool" where
  "only_lookup_errors r = (case r of Inl e \<Rightarrow> is_lookup_error e | Inr v \<Rightarrow> True)"

text \<open>Two dimension entries: one that declares columns, one that does not.\<close>

definition orgunit_dimension :: yaml where
  "orgunit_dimension = YMap [(YStr ''dimension'', YMap
     [(YStr ''name'', YStr ''orgunit''),
      (YStr ''displayName'', YStr ''Organisation''),
      (YStr ''columns'', YSeq
         [YMap [(YStr ''name'', YStr ''type'')],
          YMap [(YStr ''name'', YStr ''nom''), (YStr ''column_new_name'', YStr ''Name'')]])])]"

definition time_dimension :: yaml where
  "time_dimension = YMap [(YStr ''dimension'', YMap
     [(YStr ''name'', YStr ''time''), (YStr ''displayName'', YStr ''Time'')])]"

text \<open>
  The cube of the class documentation as a YAML document, the same document without its
  \<^verbatim>\<open>name\<close>, and a document with no \<^verbatim>\<open>facts\<close>.
\<close>

definition labster_body :: py_dict where
  "labster_body =
    [(YStr ''xmla_authentication'', YBool True),
     (YStr ''facts'', YMap
        [(YStr ''table_name'', YStr ''stats_line''),
         (YStr ''keys'', YMap
            [(YStr ''columns_names'', YSeq [YStr ''departement_id'']),
             (YStr ''refs'', YSeq [YStr ''orgunit.id''])]),
         (YStr ''measures'', YSeq [YStr ''montant'', YStr ''salaire_brut_mensuel''])]),
     (YStr ''dimensions'', YSeq [orgunit_dimension, time_dimension])]"

definition labster :: yaml where
  "labster = YMap ((YStr ''name'', YStr ''labster'') # (YStr ''source'', YStr ''csv'') # labster_body)"

definition nameless :: yaml where
  "nameless = YMap ((YStr ''source'', YStr ''csv'') # labster_body)"

definition no_facts :: yaml where
  "no_facts = YMap [(YStr ''name'', YStr ''labster''), (YStr ''source'', YStr ''csv''),
                     (YStr ''dimensions'', YSeq [])]"

text \<open>A document whose \<^verbatim>\<open>facts.keys\<close> section lists the given names and references.\<close>

definition facts_doc :: "yaml list \<Rightarrow> yaml list \<Rightarrow> yaml" where
  "facts_doc cn rs = YMap
     [(YStr ''facts'', YMap
        [(YStr ''table_name'', YStr ''stats_line''),
         (YStr ''keys'', YMap
            [(YStr ''columns_names'', YSeq cn), (YStr ''refs'', YSeq rs)]),
         (YStr ''measures'', YSeq [YStr ''montant''])])]"

text \<open>
  The pair section 4.6 of the specification describes for a column entry: its \<^verbatim>\<open>name\<close>,
  sent to its \<^verbatim>\<open>column_new_name\<close> when that is supplied and to the same name otherwise.
  An entry that is not a dict with a \<^verbatim>\<open>name\<close> has none.
\<close>

fun spec_column :: "yaml \<Rightarrow> (yaml \<times> yaml) option" where
  "spec_column (YMap c) =
     (case dict_get c (YStr ''name'') of
        None \<Rightarrow> None
      | Some n \<Rightarrow>
          Some (n, case dict_get c (YStr ''column_new_name'') of None \<Rightarrow> n | Some new \<Rightarrow> new))"
| "spec_column v = None"

text \<open>
  The shape of a configuration document (section 6 of the specification): the required
  keys are present, \<^verbatim>\<open>facts.keys\<close> holds the two sequences, \<^verbatim>\<open>dimensions\<close> is a sequence of
  entries that wrap a \<^verbatim>\<open>dimension\<close> dict with \<^verbatim>\<open>name\<close>, \<^verbatim>\<open>displayName\<close> and, optionally,
  a sequence of \<^verbatim>\<open>columns\<close> that each have a \<^verbatim>\<open>name\<close>. Names that become dict keys must be
  hashable (strings are); the types of the other scalars are left open, so every document
  of that section satisfies the predicate.
\<close>

fun valid_column :: "yaml \<Rightarrow> bool" where
  "valid_column (YMap c) =
     (case dict_get c (YStr ''name'') of None \<Rightarrow> False | Some n \<Rightarrow> hashable n)"
| "valid_column v = False"

fun valid_dimension :: "yaml \<Rightarrow> bool" where
  "valid_dimension (YMap e) =
     (case dict_get e (YStr ''dimension'') of
        Some (YMap d) \<Rightarrow>
          dict_get d (YStr ''name'') \<noteq> None
          \<and> dict_get d (YStr ''displayName'') \<noteq> None
          \<and> (case dict_get d (YStr ''columns'') of
                None \<Rightarrow> True
              | Some (YSeq cols) \<Rightarrow> list_all valid_column cols
              | Some v \<Rightarrow> False)
      | other \<Rightarrow> False)"
| "valid_dimension v = False"

fun valid_facts :: "yaml \<Rightarrow> bool" where
  "valid_facts (YMap f) =
     (dict_get f (YStr ''table_name'') \<noteq> None
      \<and> dict_get f (YStr ''measures'') \<noteq> None
      \<and> (case dict_get f (YStr ''keys'') of
            Some (YMap k) \<Rightarrow>
              (case dict_get k (YStr ''columns_names'') of
                 Some (YSeq cn) \<Rightarrow>
                   (case dict_get k (YStr ''refs'') of
                      Some (YSeq rs) \<Rightarrow> list_all hashable cn
                    | other \<Rightarrow> False)
               | other \<Rightarrow> False)
          | other \<Rightarrow> False))"
| "valid_facts v = False"

fun valid_document :: "yaml \<Rightarrow> bool" where
  "valid_document (YMap c) =
     (dict_get c (YStr ''name'') \<noteq> None
      \<and> dict_get c (YStr ''source'') \<noteq> None
      \<and> (case dict_get c (YStr ''facts'') of None \<Rightarrow> False | Some f \<Rightarrow> valid_facts f)
      \<and> (case dict_get c (YStr ''dimensions'') of
            Some (YSeq ds) \<Rightarrow> list_all valid_dimension ds
          | other \<Rightarrow> False))"
| "valid_document v = False"

text \<open>
  Chained subscripts \<^verbatim>\<open>obj[k1][k2]...\<close>, as in \<^verbatim>\<open>config['facts']['keys']['refs']\<close>: the
  keys are looked up from left to right and the first failing lookup ends the chain.
\<close>

fun lookup_path :: "yaml \<Rightarrow> string list \<Rightarrow> py_error + yaml" where
  "lookup_path v [] = Inr v"
| "lookup_path v (k # ks) = and_then (subscript v k) (\<lambda>v'. lookup_path v' ks)"

text \<open>
  A well-formed \<^verbatim>\<open>facts\<close> section with the \<^verbatim>\<open>Facts\<close> built from it, and documents and
  dimension entries that each have one structural problem: a required key is missing,
  or a value has the wrong shape.
\<close>

definition good_facts :: yaml where
  "good_facts = YMap
     [(YStr ''table_name'', YStr ''stats_line''),
      (YStr ''keys'', YMap
         [(YStr ''columns_names'', YSeq [YStr ''departement_id'']),
          (YStr ''refs'', YSeq [YStr ''orgunit.id''])]),
      (YStr ''measures'', YSeq [YStr ''montant''])]"

definition good_facts_built :: Facts where
  "good_facts_built =
     \<lparr> table_name = YStr ''stats_line'',
       keys = [(YStr ''departement_id'', YStr ''orgunit.id'')],
       measures = YSeq [YStr ''montant''] \<rparr>"

definition no_table_name :: yaml where
  "no_table_name =
     YMap [(YStr ''facts'', YMap [])]"

definition no_keys :: yaml where
  "no_keys =
     YMap [(YStr ''facts'', YMap [(YStr ''table_name'', YStr ''stats_line'')])]"

definition no_refs :: yaml where
  "no_refs =
     YMap [(YStr ''facts'', YMap [(YStr ''table_name'', YStr ''stats_line''),
       (YStr ''keys'', YMap [(YStr ''columns_names'', YSeq [])])])]"

definition bad_columns_names :: yaml where
  "bad_columns_names =
     YMap [(YStr ''facts'', YMap [(YStr ''table_name'', YStr ''stats_line''),
       (YStr ''keys'', YMap [(YStr ''columns_names'', YNull), (YStr ''refs'', YSeq [])])])]"

definition no_measures :: yaml where
  "no_measures =
     YMap [(YStr ''facts'', YMap [(YStr ''table_name'', YStr ''stats_line''),
       (YStr ''keys'', YMap [(YStr ''columns_names'', YSeq []), (YStr ''refs'', YSeq [])])])]"

definition no_dimensions :: yaml where
  "no_dimensions =
     YMap [(YStr ''facts'', good_facts)]"

definition bad_dimensions :: yaml where
  "bad_dimensions =
     YMap [(YStr ''facts'', good_facts), (YStr ''dimensions'', YNull)]"

definition bad_entry :: yaml where
  "bad_entry =
     YMap [(YStr ''facts'', good_facts),
       (YStr ''dimensions'', YSeq [time_dimension, YMap []])]"

definition no_name :: yaml where
  "no_name =
     YMap [(YStr ''facts'', good_facts), (YStr ''dimensions'', YSeq [])]"

definition no_source :: yaml where
  "no_source =
     YMap [(YStr ''name'', YStr ''labster''), (YStr ''facts'', good_facts),
       (YStr ''dimensions'', YSeq [])]"

definition entry_no_name :: yaml where
  "entry_no_name =
     YMap [(YStr ''dimension'', YMap [])]"

definition entry_no_displayName :: yaml where
  "entry_no_displayName =
     YMap [(YStr ''dimension'', YMap [(YStr ''name'', YStr ''time'')])]"

definition entry_bad_columns :: yaml where
  "entry_bad_columns =
     YMap [(YStr ''dimension'', YMap [(YStr ''name'', YStr ''time''), (YStr ''displayName'', YStr ''Time''),
       (YStr ''columns'', YNull)])]"

definition entry_column_no_name :: yaml where
  "entry_column_no_name =
     YMap [(YStr ''dimension'', YMap [(YStr ''name'', YStr ''time''), (YStr ''displayName'', YStr ''Time''),
       (YStr ''columns'', YSeq [YMap [(YStr ''name'', YStr ''type'')], YMap []])])]"

definition entry_column_bad_name :: yaml where
  "entry_column_bad_name =
     YMap [(YStr ''dimension'', YMap [(YStr ''name'', YStr ''time''), (YStr ''displayName'', YStr ''Time''),
       (YStr ''columns'', YSeq [YMap [(YStr ''name'', YSeq [])]])])]"

section \<open>Basic facts\<close>

lemma and_then_Inr [simp]: "and_then (Inr v) f = f v"
  by (simp add: and_then_def)

lemma and_then_Inl [simp]: "and_then (Inl e) f = Inl e"
  by (simp add: and_then_def)

lemma key_eq_refl [simp]: "key_eq k k"
  by (simp add: key_eq_def)

lemma dict_get_dict_set:
  "dict_get (dict_set d k v) k' = (if key_eq k k' then Some v else dict_get d k')"
  by (induction d) (auto simp: key_eq_def)

lemma dict_from_Inr:
  "list_all hashable (map fst ps) \<Longrightarrow> dict_from Inr d ps = Inr (foldl (\<lambda>acc p. dict_set acc (fst p) (snd p)) d ps)"
  by (induction ps arbitrary: d) (auto)

lemma dict_from_unhashable:
  "\<not> list_all hashable (map fst ps) \<Longrightarrow> dict_from Inr d ps = Inl TypeError"
  by (induction ps arbitrary: d) (auto)

lemma dict_get_foldl:
  "dict_get (foldl (\<lambda>acc p. dict_set acc (fst p) (snd p)) d ps) k =
     (case map_of (rev (map (\<lambda>p. (key_norm (fst p), snd p)) ps)) (key_norm k) of
        Some v \<Rightarrow> Some v | None \<Rightarrow> dict_get d k)"
proof (induction ps arbitrary: d)
  case Nil
  show ?case by simp
next
  case (Cons p ps)
  show ?case
    by (simp add: Cons.IH dict_get_dict_set map_add_def key_eq_def split: option.splits)
qed

lemma dict_set_fresh:
  "dict_get d k = None \<Longrightarrow> dict_set d k v = d @ [(k, v)]"
  by (induction d) (auto split: if_splits)

lemma dict_get_append_fresh:
  "dict_get (d @ [(k, v)]) k' = (case dict_get d k' of Some x \<Rightarrow> Some x | None \<Rightarrow> if key_eq k k' then Some v else None)"
  by (induction d) auto

lemma set_norm_keys: "set (norm_keys ps) = (\<lambda>p. key_norm (fst p)) ` set ps"
  by (induction ps) auto

lemma length_norm_keys [simp]: "length (norm_keys ps) = length ps"
  by (induction ps) auto

lemma dict_get_None_iff: "dict_get d k = None \<longleftrightarrow> key_norm k \<notin> set (norm_keys d)"
  by (induction d) (auto simp: key_eq_def split: if_splits)

lemma norm_keys_append [simp]: "norm_keys (xs @ ys) = norm_keys xs @ norm_keys ys"
  by (induction xs) auto

lemma foldl_dict_set_distinct:
  "distinct (norm_keys ps) \<Longrightarrow> set (norm_keys ps) \<inter> set (norm_keys d) = {} \<Longrightarrow>
   foldl (\<lambda>acc p. dict_set acc (fst p) (snd p)) d ps = d @ ps"
proof (induction ps arbitrary: d)
  case Nil
  show ?case by simp
next
  case (Cons p ps)
  have fresh: "dict_get d (fst p) = None"
    using Cons.prems(2) by (simp add: dict_get_None_iff)
  have step: "dict_set d (fst p) (snd p) = d @ [p]"
    using dict_set_fresh [OF fresh, of "snd p"] by simp
  have "distinct (norm_keys ps)" using Cons.prems(1) by simp
  moreover have "set (norm_keys ps) \<inter> set (norm_keys (d @ [p])) = {}"
    using Cons.prems by auto
  ultimately have "foldl (\<lambda>acc p. dict_set acc (fst p) (snd p)) (d @ [p]) ps = (d @ [p]) @ ps"
    by (rule Cons.IH)
  then show ?case using step by simp
qed

lemma norm_keys_dict_set:
  "set (norm_keys (dict_set d k v)) = insert (key_norm k) (set (norm_keys d))"
proof (induction d)
  case Nil
  show ?case by simp
next
  case (Cons a d)
  show ?case
  proof (cases "key_norm (fst a) = key_norm k")
    case True
    have "dict_set (a # d) k v = (fst a, v) # d"
      using True by (cases a) (simp add: key_eq_def)
    then show ?thesis using True by auto
  next
    case False
    have "dict_set (a # d) k v = a # dict_set d k v"
      using False by (cases a) (simp add: key_eq_def)
    then show ?thesis using Cons.IH by auto
  qed
qed

lemma dict_set_distinct:
  "distinct (norm_keys d) \<Longrightarrow> distinct (norm_keys (dict_set d k v))"
proof (induction d)
  case Nil
  show ?case by simp
next
  case (Cons a d)
  show ?case
  proof (cases "key_norm (fst a) = key_norm k")
    case True
    have "dict_set (a # d) k v = (fst a, v) # d"
      using True by (cases a) (simp add: key_eq_def)
    then show ?thesis using Cons.prems by simp
  next
    case False
    have eq: "dict_set (a # d) k v = a # dict_set d k v"
      using False by (cases a) (simp add: key_eq_def)
    have "key_norm (fst a) \<notin> set (norm_keys (dict_set d k v))"
      using Cons.prems False by (simp add: norm_keys_dict_set)
    moreover have "distinct (norm_keys (dict_set d k v))"
      using Cons.IH Cons.prems by simp
    ultimately show ?thesis using eq by simp
  qed
qed

lemma foldl_dict_set_keys:
  "set (norm_keys (foldl (\<lambda>acc p. dict_set acc (fst p) (snd p)) d ps))
     = set (norm_keys d) \<union> set (norm_keys ps)"
  by (induction ps arbitrary: d) (auto simp: norm_keys_dict_set)

lemma foldl_dict_set_keys_distinct:
  "distinct (norm_keys d) \<Longrightarrow>
   distinct (norm_keys (foldl (\<lambda>acc p. dict_set acc (fst p) (snd p)) d ps))"
  by (induction ps arbitrary: d) (auto simp: dict_set_distinct)

lemma foldl_dict_set_length:
  "length (foldl (\<lambda>acc p. dict_set acc (fst p) (snd p)) [] ps) = card (set (norm_keys ps))"
proof -
  let ?r = "foldl (\<lambda>acc p. dict_set acc (fst p) (snd p)) [] ps"
  have d: "distinct (norm_keys ?r)"
    by (rule foldl_dict_set_keys_distinct) simp
  have "length ?r = length (norm_keys ?r)" by simp
  also have "\<dots> = card (set (norm_keys ?r))"
    using distinct_card [OF d] by simp
  also have "set (norm_keys ?r) = set (norm_keys ps)"
    using foldl_dict_set_keys [of "[]" ps] by simp
  finally show ?thesis .
qed

lemma example_parser_path:
  "get_config_file_path example_parser = ''/home/u/olapy-data/cubes/cubes-config.yml''"
  by (simp add: example_parser_def init_default_def init_def get_config_file_path_def
      get_cube_path_def example_world_def path_join_def path_join2_def)

lemma example_world_files:
  "files (example_world f) ''/home/u/olapy-data/cubes/cubes-config.yml'' = f"
  by (simp add: example_world_def)

lemma join_subpath:
  "path_join d [''olapy-data'', ''cubes''] =
     (if d = [] \<or> last d = CHR ''/'' then d else d @ ''/'') @ ''olapy-data/cubes''"
  by (simp add: path_join_def path_join2_def)

subsection \<open>Which exceptions building can raise\<close>

lemma ole_Inr [simp]: "only_lookup_errors (Inr v)"
  by (simp add: only_lookup_errors_def)

lemma ole_Inl [simp]: "only_lookup_errors (Inl e) = is_lookup_error e"
  by (simp add: only_lookup_errors_def)

lemma ole_and_then:
  "only_lookup_errors r \<Longrightarrow> (\<And>v. only_lookup_errors (f v)) \<Longrightarrow> only_lookup_errors (and_then r f)"
  by (cases r) simp_all

lemma ole_subscript: "only_lookup_errors (subscript v k)"
  by (cases v) (simp_all split: option.splits)

lemma ole_contains: "only_lookup_errors (contains k v)"
  by (cases v) simp_all

lemma ole_py_iter: "only_lookup_errors (py_iter v)"
  by (cases v) simp_all

lemma ole_py_zip: "only_lookup_errors (py_zip a b)"
  unfolding py_zip_def by (intro ole_and_then ole_py_iter ole_Inr)

lemma ole_dict_from:
  "(\<And>x. only_lookup_errors (gen x)) \<Longrightarrow> only_lookup_errors (dict_from gen d xs)"
proof (induction xs arbitrary: d)
  case Nil
  show ?case by simp
next
  case (Cons x xs)
  show ?case
  proof (cases "gen x")
    case (Inl e)
    then show ?thesis using Cons.prems [of x] by simp
  next
    case (Inr p)
    then show ?thesis using Cons.IH [OF Cons.prems] by (cases p) simp
  qed
qed

lemma ole_map_result:
  "(\<And>x. only_lookup_errors (f x)) \<Longrightarrow> only_lookup_errors (map_result f xs)"
proof (induction xs)
  case Nil
  show ?case by simp
next
  case (Cons x xs)
  show ?case
    using Cons.prems [of x] Cons.IH [OF Cons.prems]
    by (cases "f x"; cases "map_result f xs") simp_all
qed

lemma ole_column_pair: "only_lookup_errors (column_pair c)"
  unfolding column_pair_def
  by (intro ole_and_then ole_subscript ole_contains ole_Inr) (simp add: ole_subscript)

lemma ole_build_facts: "only_lookup_errors (build_facts config)"
  unfolding build_facts_def
  by (intro ole_and_then ole_subscript ole_py_zip ole_dict_from ole_Inr)

lemma ole_build_dimension: "only_lookup_errors (build_dimension d)"
  unfolding build_dimension_def
  apply (intro ole_and_then ole_subscript ole_contains ole_Inr)
  apply (simp add: ole_and_then ole_subscript ole_py_iter ole_dict_from ole_column_pair)
  done

lemma ole_build_facts_dimensions: "only_lookup_errors (build_facts_dimensions config)"
  unfolding build_facts_dimensions_def
  by (intro ole_and_then ole_subscript ole_py_iter ole_map_result ole_build_facts
      ole_build_dimension ole_Inr)

lemma ole_build_cube: "only_lookup_errors (build_cube x)"
  unfolding build_cube_def
  by (cases x) (simp add: ole_and_then ole_subscript)

lemma ole_build: "only_lookup_errors (and_then (build_facts_dimensions config) build_cube)"
  by (intro ole_and_then ole_build_facts_dimensions ole_build_cube)

subsection \<open>The entry points on an existing file\<close>

lemma build_facts_dimensions_config:
  "build_facts_dimensions config = Inr (c, fs, ds) \<Longrightarrow> c = config"
  by (auto simp: build_facts_dimensions_def and_then_def split: sum.splits)

lemma construct_cubes_present:
  "files w (get_config_file_path self) = Some (Document config) \<Longrightarrow>
   construct_cubes w self =
     ([IsFile (get_config_file_path self), Open (get_config_file_path self),
       YamlLoad (get_config_file_path self), Close (get_config_file_path self)],
      and_then (build_facts_dimensions config) build_cube)"
  by (simp add: construct_cubes_def construct_cubes_excel_def config_file_exists_def
      with_config_def Let_def)

lemma build_no_facts:
  "dict_get d (YStr ''facts'') = None \<Longrightarrow>
   and_then (build_facts_dimensions (YMap d)) build_cube = Inl (KeyError ''facts'')"
  by (simp add: build_facts_dimensions_def build_facts_def)

lemma xmla_authentication_present:
  "files w (get_config_file_path self) = Some (Document config) \<Longrightarrow>
   xmla_authentication w self =
     ([IsFile (get_config_file_path self), Open (get_config_file_path self),
       YamlLoad (get_config_file_path self), Close (get_config_file_path self)],
      case subscript config ''xmla_authentication'' of
        Inl e \<Rightarrow> Inr (YBool False) | Inr v \<Rightarrow> Inr v)"
  by (simp add: xmla_authentication_def config_file_exists_def with_config_def Let_def)

lemma get_cubes_names_present:
  "files w (get_config_file_path self) = Some (Document config) \<Longrightarrow>
   get_cubes_names w self =
     ([Open (get_config_file_path self),
       YamlLoad (get_config_file_path self), Close (get_config_file_path self)],
      case and_then (subscript config ''name'') (\<lambda>n.
           and_then (subscript config ''source'') (\<lambda>s.
           dict_from Inr [] [(n, s)])) of
        Inl e \<Rightarrow> Inl (ValueError ''missed name or source tags'')
      | Inr d \<Rightarrow> Inr d)"
  by (simp add: get_cubes_names_def with_config_def Let_def)

lemma build_missing_identity:
  assumes "dict_get d (YStr ''name'') = None \<or> dict_get d (YStr ''source'') = None"
  shows "\<exists>e. and_then (build_facts_dimensions (YMap d)) build_cube = Inl e"
proof (cases "build_facts_dimensions (YMap d)")
  case (Inl e)
  then show ?thesis by simp
next
  case (Inr x)
  obtain c fs ds where x: "x = (c, fs, ds)" by (cases x)
  have "c = YMap d" using Inr x build_facts_dimensions_config by simp
  then show ?thesis using Inr x assms
    by (auto simp: build_cube_def split: option.splits)
qed

subsection \<open>The keys of the facts\<close>

lemma norm_keys_zip: "norm_keys (zip cn rs) = map key_norm (take (length rs) cn)"
proof (induction cn arbitrary: rs)
  case Nil
  show ?case by simp
next
  case (Cons c cn)
  show ?case by (cases rs) (simp_all add: Cons.IH)
qed

lemma map_fst_zip: "map fst (zip cn rs) = take (length rs) cn"
proof (induction cn arbitrary: rs)
  case Nil
  show ?case by simp
next
  case (Cons c cn)
  show ?case by (cases rs) (simp_all add: Cons.IH)
qed

lemma zip_truncate:
  "zip cn rs = zip (take (min (length cn) (length rs)) cn) (take (min (length cn) (length rs)) rs)"
proof -
  have "zip cn rs = take (length (zip cn rs)) (zip cn rs)" by simp
  also have "\<dots> = zip (take (min (length cn) (length rs)) cn) (take (min (length cn) (length rs)) rs)"
    by (simp only: take_zip length_zip)
  finally show ?thesis .
qed

lemma map_of_rev_last:
  "i < length xs \<Longrightarrow> (\<forall>j. i < j \<and> j < length xs \<longrightarrow> fst (xs ! j) \<noteq> fst (xs ! i)) \<Longrightarrow>
   map_of (rev xs) (fst (xs ! i)) = Some (snd (xs ! i))"
proof (induction xs rule: rev_induct)
  case Nil
  then show ?case by simp
next
  case (snoc x xs)
  show ?case
  proof (cases "i = length xs")
    case True
    then show ?thesis by (cases x) simp
  next
    case False
    then have i: "i < length xs" using snoc.prems(1) by simp
    have "fst ((xs @ [x]) ! length xs) \<noteq> fst ((xs @ [x]) ! i)"
      using snoc.prems(2) i by (metis length_append_singleton lessI)
    then have ne: "fst x \<noteq> fst (xs ! i)" using i by (simp add: nth_append)
    have "\<forall>j. i < j \<and> j < length xs \<longrightarrow> fst (xs ! j) \<noteq> fst (xs ! i)"
    proof (intro allI impI)
      fix j assume j: "i < j \<and> j < length xs"
      then have "fst ((xs @ [x]) ! j) \<noteq> fst ((xs @ [x]) ! i)"
        using snoc.prems(2) by simp
      then show "fst (xs ! j) \<noteq> fst (xs ! i)" using j i by (simp add: nth_append)
    qed
    then have "map_of (rev xs) (fst (xs ! i)) = Some (snd (xs ! i))"
      using snoc.IH i by simp
    then show ?thesis using ne i by (cases x) (auto simp: nth_append)
  qed
qed

lemma build_facts_eq:
  assumes "subscript config ''facts'' = Inr f"
    and "subscript f ''table_name'' = Inr tn"
    and "subscript f ''keys'' = Inr k"
    and "subscript k ''columns_names'' = Inr (YSeq cn)"
    and "subscript k ''refs'' = Inr (YSeq rs)"
    and "subscript f ''measures'' = Inr m"
  shows "build_facts config =
           and_then (dict_from Inr [] (zip cn rs))
             (\<lambda>ks. Inr \<lparr> table_name = tn, keys = ks, measures = m \<rparr>)"
  by (simp add: build_facts_def assms py_zip_def)

lemma dict_from_zip:
  assumes "list_all hashable (take (length rs) cn)"
  shows "dict_from Inr [] (zip cn rs)
           = Inr (foldl (\<lambda>acc p. dict_set acc (fst p) (snd p)) [] (zip cn rs))"
  using assms by (simp add: dict_from_Inr map_fst_zip)

lemma dict_get_zip:
  "dict_get (foldl (\<lambda>acc p. dict_set acc (fst p) (snd p)) [] (zip cn rs)) key
     = map_of (rev (zip (map key_norm cn) rs)) (key_norm key)"
proof -
  have "map (\<lambda>p. (key_norm (fst p), snd p)) (zip cn rs) = zip (map key_norm cn) rs"
    by (simp add: zip_map1 case_prod_unfold)
  then show ?thesis
    by (simp add: dict_get_foldl split: option.splits)
qed

lemma dict_zip_distinct:
  assumes "distinct (map key_norm (take (length rs) cn))"
  shows "foldl (\<lambda>acc p. dict_set acc (fst p) (snd p)) [] (zip cn rs) = zip cn rs"
  using foldl_dict_set_distinct [of "zip cn rs" "[]"] assms by (simp add: norm_keys_zip)

lemma dict_zip_length:
  "length (foldl (\<lambda>acc p. dict_set acc (fst p) (snd p)) [] (zip cn rs))
     = card (set (map key_norm (take (length rs) cn)))"
  by (simp add: foldl_dict_set_length norm_keys_zip)

lemma facts_doc_subscripts:
  "subscript (facts_doc cn rs) ''facts'' = Inr (YMap
        [(YStr ''table_name'', YStr ''stats_line''),
         (YStr ''keys'', YMap
            [(YStr ''columns_names'', YSeq cn), (YStr ''refs'', YSeq rs)]),
         (YStr ''measures'', YSeq [YStr ''montant''])])"
  by (simp add: facts_doc_def key_eq_def)

subsection \<open>Dimensions and valid documents\<close>

lemma column_pair_spec: "spec_column c = Some p \<Longrightarrow> column_pair c = Inr p"
  by (cases c) (auto simp: column_pair_def split: option.splits)

lemma dict_from_column_pair:
  "map spec_column cols = map Some pairs \<Longrightarrow>
   dict_from column_pair d cols = dict_from Inr d pairs"
proof (induction cols arbitrary: d pairs)
  case Nil
  then show ?case by simp
next
  case (Cons c cols)
  obtain p ps where pairs: "pairs = p # ps" using Cons.prems by (cases pairs) auto
  have c: "spec_column c = Some p" and rest: "map spec_column cols = map Some ps"
    using Cons.prems pairs by auto
  show ?case
    using column_pair_spec [OF c] Cons.IH [OF rest] pairs by (cases p) simp
qed

lemma build_dimension_eq:
  assumes "subscript entry ''dimension'' = Inr (YMap d)"
    and "dict_get d (YStr ''name'') = Some n"
    and "dict_get d (YStr ''displayName'') = Some dn"
  shows "build_dimension entry =
           and_then (case dict_get d (YStr ''columns'') of
                       None \<Rightarrow> Inr []
                     | Some cols \<Rightarrow> and_then (py_iter cols) (dict_from column_pair []))
             (\<lambda>cols. Inr \<lparr> Dimension.name = n, displayName = dn, columns = cols \<rparr>)"
  using assms by (auto simp: build_dimension_def split: option.splits)

lemma norm_keys_dict_set_list:
  "norm_keys (dict_set d k v)
     = (if key_norm k \<in> set (norm_keys d) then norm_keys d else norm_keys d @ [key_norm k])"
proof (induction d)
  case Nil
  show ?case by simp
next
  case (Cons a d)
  show ?case
  proof (cases "key_norm (fst a) = key_norm k")
    case True
    have "dict_set (a # d) k v = (fst a, v) # d"
      using True by (cases a) (simp add: key_eq_def)
    then show ?thesis using True by simp
  next
    case False
    have "dict_set (a # d) k v = a # dict_set d k v"
      using False by (cases a) (simp add: key_eq_def)
    then show ?thesis using Cons.IH False by auto
  qed
qed

lemma remdups_drop_later:
  "x \<in> set ys \<Longrightarrow> remdups (xs @ x # ys) = remdups (xs @ ys)"
  by (induction xs) auto

lemma norm_keys_foldl_order:
  "distinct (norm_keys d) \<Longrightarrow>
   norm_keys (foldl (\<lambda>acc p. dict_set acc (fst p) (snd p)) d ps)
     = rev (remdups (rev (norm_keys d @ norm_keys ps)))"
proof (induction ps arbitrary: d)
  case Nil
  then show ?case by (simp add: distinct_remdups_id)
next
  case (Cons p ps)
  let ?d = "dict_set d (fst p) (snd p)"
  have dist: "distinct (norm_keys ?d)"
    using Cons.prems by (rule dict_set_distinct)
  have IH: "norm_keys (foldl (\<lambda>acc p. dict_set acc (fst p) (snd p)) ?d ps)
              = rev (remdups (rev (norm_keys ?d @ norm_keys ps)))"
    using Cons.IH [OF dist] .
  show ?case
  proof (cases "key_norm (fst p) \<in> set (norm_keys d)")
    case True
    have "norm_keys ?d = norm_keys d" using True by (simp add: norm_keys_dict_set_list)
    moreover have "remdups (rev (norm_keys ps) @ key_norm (fst p) # rev (norm_keys d))
                     = remdups (rev (norm_keys ps) @ rev (norm_keys d))"
      using True by (intro remdups_drop_later) simp
    ultimately show ?thesis using IH by simp
  next
    case False
    have "norm_keys ?d = norm_keys d @ [key_norm (fst p)]"
      using False by (simp add: norm_keys_dict_set_list)
    then show ?thesis using IH by simp
  qed
qed

lemma dict_get_pairs:
  "dict_get (foldl (\<lambda>acc p. dict_set acc (fst p) (snd p)) [] ps) key
     = map_of (rev (zip (norm_keys ps) (map snd ps))) (key_norm key)"
proof -
  have "map (\<lambda>p. (key_norm (fst p), snd p)) ps = zip (norm_keys ps) (map snd ps)"
    by (induction ps) auto
  then show ?thesis by (simp add: dict_get_foldl split: option.splits)
qed

lemma valid_column_spec:
  "valid_column c \<Longrightarrow> \<exists>p. spec_column c = Some p \<and> hashable (fst p)"
  by (cases c) (auto split: option.splits)

lemma valid_columns_build:
  "list_all valid_column cols \<Longrightarrow> \<exists>r. dict_from column_pair d cols = Inr r"
proof (induction cols arbitrary: d)
  case Nil
  show ?case by simp
next
  case (Cons c cols)
  obtain p where p: "spec_column c = Some p" "hashable (fst p)"
    using valid_column_spec [of c] Cons.prems by auto
  have "list_all valid_column cols" using Cons.prems by simp
  then obtain r where "dict_from column_pair (dict_set d (fst p) (snd p)) cols = Inr r"
    using Cons.IH by blast
  then show ?case using column_pair_spec [OF p(1)] p(2) by (cases p) simp
qed

lemma valid_dimension_builds:
  assumes "valid_dimension e"
  shows "\<exists>x. build_dimension e = Inr x"
proof -
  obtain em where e: "e = YMap em" using assms by (cases e) auto
  obtain d where d: "dict_get em (YStr ''dimension'') = Some (YMap d)"
    using assms e by (auto split: option.splits yaml.splits)
  obtain n dn where n: "dict_get d (YStr ''name'') = Some n"
    and dn: "dict_get d (YStr ''displayName'') = Some dn"
    using assms e d by auto
  have s: "subscript e ''dimension'' = Inr (YMap d)" using e d by simp
  show ?thesis
  proof (cases "dict_get d (YStr ''columns'')")
    case None
    then show ?thesis by (simp add: build_dimension_eq [OF s n dn])
  next
    case (Some v)
    then obtain cols where v: "v = YSeq cols" and ok: "list_all valid_column cols"
      using assms e d by (auto split: yaml.splits)
    obtain r where "dict_from column_pair [] cols = Inr r"
      using valid_columns_build [OF ok] by blast
    then show ?thesis using Some v by (simp add: build_dimension_eq [OF s n dn])
  qed
qed

lemma map_result_ok:
  "list_all (\<lambda>x. \<exists>y. f x = Inr y) xs \<Longrightarrow> \<exists>ys. map_result f xs = Inr ys"
  by (induction xs) auto

lemma valid_facts_builds:
  assumes "subscript config ''facts'' = Inr f" and "valid_facts f"
  shows "\<exists>x. build_facts config = Inr x"
proof -
  obtain fm where f: "f = YMap fm" using assms(2) by (cases f) auto
  obtain tn m where tn: "dict_get fm (YStr ''table_name'') = Some tn"
    and m: "dict_get fm (YStr ''measures'') = Some m"
    using assms(2) f by auto
  obtain k where k: "dict_get fm (YStr ''keys'') = Some (YMap k)"
    using assms(2) f by (auto split: option.splits yaml.splits)
  obtain cn where cn: "dict_get k (YStr ''columns_names'') = Some (YSeq cn)"
    using assms(2) f k by (auto split: option.splits yaml.splits)
  obtain rs where rs: "dict_get k (YStr ''refs'') = Some (YSeq rs)"
    using assms(2) f k cn by (auto split: option.splits yaml.splits)
  have h: "list_all hashable cn" using assms(2) f k cn rs by simp
  then have "list_all hashable (take (length rs) cn)"
    by (auto simp: list_all_iff dest: in_set_takeD)
  then have "dict_from Inr [] (zip cn rs)
           = Inr (foldl (\<lambda>acc p. dict_set acc (fst p) (snd p)) [] (zip cn rs))"
    by (rule dict_from_zip)
  moreover have s2: "subscript f ''table_name'' = Inr tn" using f tn by simp
  moreover have s3: "subscript f ''keys'' = Inr (YMap k)" using f k by simp
  moreover have s4: "subscript (YMap k) ''columns_names'' = Inr (YSeq cn)" using cn by simp
  moreover have s5: "subscript (YMap k) ''refs'' = Inr (YSeq rs)" using rs by simp
  moreover have s6: "subscript f ''measures'' = Inr m" using f m by simp
  moreover have "build_facts config =
           and_then (dict_from Inr [] (zip cn rs))
             (\<lambda>ks. Inr \<lparr> table_name = tn, keys = ks, measures = m \<rparr>)"
    by (rule build_facts_eq [OF assms(1) s2 s3 s4 s5 s6])
  ultimately show ?thesis by simp
qed

lemma valid_document_builds:
  assumes "valid_document (YMap c)"
  shows "\<exists>fs ds. build_facts_dimensions (YMap c) = Inr (YMap c, fs, ds)"
proof -
  obtain f where f: "dict_get c (YStr ''facts'') = Some f" and vf: "valid_facts f"
    using assms by (auto split: option.splits)
  obtain ds where ds: "dict_get c (YStr ''dimensions'') = Some (YSeq ds)"
    and vd: "list_all valid_dimension ds"
    using assms by (auto split: option.splits yaml.splits)
  have "subscript (YMap c) ''facts'' = Inr f" using f by simp
  then obtain x where x: "build_facts (YMap c) = Inr x"
    using valid_facts_builds vf by blast
  have "list_all (\<lambda>e. \<exists>y. build_dimension e = Inr y) ds"
    using vd valid_dimension_builds by (auto simp: list_all_iff)
  then obtain ys where "map_result build_dimension ds = Inr ys"
    using map_result_ok by blast
  then show ?thesis using x ds by (simp add: build_facts_dimensions_def)
qed

subsection \<open>Where an error comes from\<close>

lemma and_then_assoc:
  "and_then (and_then r f) g = and_then r (\<lambda>x. and_then (f x) g)"
  by (cases r) simp_all

lemma and_then_return: "and_then r Inr = r"
  by (cases r) simp_all

lemma lookup_path_1: "lookup_path v [a] = subscript v a"
  by (simp add: and_then_return)

lemma lookup_path_2: "lookup_path v [a, b] = and_then (subscript v a) (\<lambda>x. subscript x b)"
  by (simp add: and_then_return)

lemma lookup_path_3:
  "lookup_path v [a, b, c]
     = and_then (subscript v a) (\<lambda>x. and_then (subscript x b) (\<lambda>y. subscript y c))"
  by (simp add: and_then_return)

lemma lookup_path_append:
  "lookup_path v (ks @ ks') = and_then (lookup_path v ks) (\<lambda>u. lookup_path u ks')"
proof (induction ks arbitrary: v)
  case Nil
  show ?case by simp
next
  case (Cons k ks)
  show ?case by (cases "subscript v k") (simp_all add: Cons.IH)
qed

declare lookup_path.simps [simp del]

lemma lookup_path_Nil: "lookup_path v [] = Inr v"
  by (simp add: lookup_path.simps)

lemma lookup_path_Cons_Inr:
  "subscript v k = Inr v' \<Longrightarrow> lookup_path v (k # ks) = lookup_path v' ks"
  by (simp add: lookup_path.simps)

lemma lookup_path_Cons_Inl:
  "subscript v k = Inl e \<Longrightarrow> lookup_path v (k # ks) = Inl e"
  by (simp add: lookup_path.simps)

lemma subscript_error:
  "subscript v k = Inl e \<longleftrightarrow>
     (\<exists>m. v = YMap m \<and> dict_get m (YStr k) = None \<and> e = KeyError k)
     \<or> ((\<forall>m. v \<noteq> YMap m) \<and> e = TypeError)"
  by (cases v) (auto split: option.splits)

lemma lookup_path_error:
  "lookup_path v ks = Inl e \<Longrightarrow>
   \<exists>pre k post u. ks = pre @ k # post \<and> lookup_path v pre = Inr u \<and> subscript u k = Inl e"
proof (induction ks arbitrary: v)
  case Nil
  then show ?case by (simp add: lookup_path_Nil)
next
  case (Cons k ks)
  show ?case
  proof (cases "subscript v k")
    case (Inl e')
    then have "subscript v k = Inl e" using Cons.prems by (simp add: lookup_path_Cons_Inl)
    then have "k # ks = [] @ k # ks \<and> lookup_path v [] = Inr v \<and> subscript v k = Inl e"
      by (simp add: lookup_path_Nil)
    then show ?thesis by (intro exI)
  next
    case (Inr v')
    then have "lookup_path v' ks = Inl e" using Cons.prems by (simp add: lookup_path_Cons_Inr)
    then obtain pre k' post u where h: "ks = pre @ k' # post" "lookup_path v' pre = Inr u"
      "subscript u k' = Inl e"
      using Cons.IH by metis
    have "k # ks = (k # pre) @ k' # post \<and> lookup_path v (k # pre) = Inr u
            \<and> subscript u k' = Inl e"
      using h Inr by (simp add: lookup_path_Cons_Inr)
    then show ?thesis by (intro exI)
  qed
qed

lemma lookup_path_missing:
  "lookup_path v pre = Inr (YMap m) \<Longrightarrow> dict_get m (YStr k) = None \<Longrightarrow>
   lookup_path v (pre @ k # post) = Inl (KeyError k)"
  by (simp add: lookup_path_append lookup_path_Cons_Inl)

lemma lookup_path_not_dict:
  assumes "lookup_path v pre = Inr u" and "\<forall>m. u \<noteq> YMap m"
  shows "lookup_path v (pre @ k # post) = Inl TypeError"
proof -
  have "subscript u k = Inl TypeError" using assms(2) by (cases u) simp_all
  then show ?thesis using assms(1) by (simp add: lookup_path_append lookup_path_Cons_Inl)
qed

lemma build_facts_paths:
  "build_facts config =
     and_then (lookup_path config [''facts'', ''table_name'']) (\<lambda>tn.
     and_then (lookup_path config [''facts'', ''keys'', ''columns_names'']) (\<lambda>cn.
     and_then (lookup_path config [''facts'', ''keys'', ''refs'']) (\<lambda>rs.
     and_then (py_zip cn rs) (\<lambda>pairs.
     and_then (dict_from Inr [] pairs) (\<lambda>ks.
     and_then (lookup_path config [''facts'', ''measures'']) (\<lambda>m.
     Inr \<lparr> table_name = tn, keys = ks, measures = m \<rparr>))))))"
  by (simp add: build_facts_def lookup_path_2 lookup_path_3 and_then_assoc)

lemma build_facts_dimensions_paths:
  "build_facts_dimensions config =
     and_then (build_facts config) (\<lambda>f.
     and_then (lookup_path config [''dimensions'']) (\<lambda>ds.
     and_then (py_iter ds) (\<lambda>entries.
     and_then (map_result build_dimension entries) (\<lambda>dims.
     Inr (config, [f], dims)))))"
  by (simp add: build_facts_dimensions_def lookup_path_1)

lemma build_paths:
  "build_facts_dimensions config = Inr x \<Longrightarrow>
   and_then (build_facts_dimensions config) build_cube =
     and_then (lookup_path config [''name'']) (\<lambda>n.
     and_then (lookup_path config [''source'']) (\<lambda>s.
     Inr [\<lparr> name = n, source = s, facts = fst (snd x), dimensions = snd (snd x) \<rparr>]))"
proof -
  assume b: "build_facts_dimensions config = Inr x"
  obtain c fs ds where x: "x = (c, fs, ds)" by (cases x)
  have "c = config" using b x build_facts_dimensions_config by simp
  then show ?thesis using b x by (simp add: build_cube_def lookup_path_1)
qed

lemma map_result_append_error:
  "map_result f pre = Inr built \<Longrightarrow> f x = Inl e \<Longrightarrow> map_result f (pre @ x # post) = Inl e"
proof (induction pre arbitrary: built)
  case Nil
  then show ?case by simp
next
  case (Cons a pre)
  obtain y ys where y: "f a = Inr y" and ys: "map_result f pre = Inr ys"
    using Cons.prems(1) by (auto split: sum.splits)
  have "map_result f (pre @ x # post) = Inl e"
    using Cons.IH [OF ys Cons.prems(2)] .
  then show ?case using y by simp
qed

lemma dict_from_append:
  "dict_from gen d (xs @ ys) = and_then (dict_from gen d xs) (\<lambda>d'. dict_from gen d' ys)"
proof (induction xs arbitrary: d)
  case Nil
  show ?case by simp
next
  case (Cons x xs)
  show ?case by (cases "gen x") (auto simp: Cons.IH)
qed

lemma build_dimension_paths:
  "build_dimension entry =
     and_then (lookup_path entry [''dimension'', ''name'']) (\<lambda>n.
     and_then (lookup_path entry [''dimension'', ''displayName'']) (\<lambda>dn.
     and_then (and_then (lookup_path entry [''dimension'']) (contains ''columns'')) (\<lambda>has.
     and_then (if has then
                 and_then (lookup_path entry [''dimension'', ''columns'']) (\<lambda>cols.
                 and_then (py_iter cols) (\<lambda>cs. dict_from column_pair [] cs))
               else Inr []) (\<lambda>cols.
     Inr \<lparr> Dimension.name = n, displayName = dn, columns = cols \<rparr>))))"
  by (simp add: build_dimension_def lookup_path_1 lookup_path_2 and_then_assoc cong: if_cong)

lemma has_columns:
  assumes "lookup_path entry [''dimension'', ''columns''] = Inr cols"
  shows "and_then (lookup_path entry [''dimension'']) (contains ''columns'') = Inr True"
proof -
  obtain d where d: "subscript entry ''dimension'' = Inr d" and c: "subscript d ''columns'' = Inr cols"
    using assms by (cases "subscript entry ''dimension''") (simp_all add: lookup_path_2)
  obtain m where "d = YMap m" using c by (cases d) simp_all
  then show ?thesis using d c by (auto simp: lookup_path_1 split: option.splits)
qed

lemma column_pair_paths:
  "lookup_path col [''name''] = Inl e \<Longrightarrow> column_pair col = Inl e"
  by (simp add: column_pair_def lookup_path_1)

lemma column_pair_key:
  assumes "lookup_path col [''name''] = Inr k"
  shows "\<exists>v. column_pair col = Inr (k, v)"
proof -
  have s: "subscript col ''name'' = Inr k" using assms by (simp add: lookup_path_1)
  then obtain m where m: "col = YMap m" by (cases col) simp_all
  show ?thesis
  proof (cases "dict_get m (YStr ''column_new_name'')")
    case None
    then show ?thesis using s m by (simp add: column_pair_def)
  next
    case (Some v)
    then show ?thesis using s m by (simp add: column_pair_def)
  qed
qed

lemma build_facts_grouped:
  "build_facts config =
     and_then (lookup_path config [''facts'', ''table_name'']) (\<lambda>tn.
     and_then (lookup_path config [''facts'', ''keys'', ''columns_names'']) (\<lambda>cn.
     and_then (lookup_path config [''facts'', ''keys'', ''refs'']) (\<lambda>rs.
     and_then (and_then (py_zip cn rs) (dict_from Inr [])) (\<lambda>ks.
     and_then (lookup_path config [''facts'', ''measures'']) (\<lambda>m.
     Inr \<lparr> table_name = tn, keys = ks, measures = m \<rparr>)))))"
  by (simp add: build_facts_paths and_then_assoc)

lemma fail_facts:
  "build_facts config = Inl e \<Longrightarrow>
   and_then (build_facts_dimensions config) build_cube = Inl e"
  by (simp add: build_facts_dimensions_def)

lemmas failing_documents =
  no_table_name_def
  no_keys_def
  no_refs_def
  bad_columns_names_def
  no_measures_def
  no_dimensions_def
  bad_dimensions_def
  bad_entry_def
  no_name_def
  no_source_def
  entry_no_name_def
  entry_no_displayName_def
  entry_bad_columns_def
  entry_column_no_name_def
  entry_column_bad_name_def

lemma card_norm_take:
  "card (set (map key_norm (take n cn))) \<le> card (set (map key_norm cn))"
proof (rule card_mono)
  show "finite (set (map key_norm cn))" by simp
next
  show "set (map key_norm (take n cn)) \<subseteq> set (map key_norm cn)"
    using set_take_subset [of n cn] by auto
qed

lemma card_not_distinct:
  "\<not> distinct xs \<Longrightarrow> card (set xs) < length xs"
  using card_distinct [of xs] card_length [of xs] by linarith

section \<open>The claims\<close>

subsection \<open>Base path\<close>

text \<open>
  C5 (as amended). When \<^verbatim>\<open>OLAPY_PATH\<close> is set, its value takes the place of the home
  directory only: the subpath \<^verbatim>\<open>olapy-data/cubes\<close> is appended to it exactly as it is
  appended to the home directory when the variable is absent, so the result is never the
  value of the variable itself.
\<close>

theorem get_cube_path_appends_subpath:
  "(environ w ''OLAPY_PATH'' = Some v \<longrightarrow>
      get_cube_path w = (if v = [] \<or> last v = CHR ''/'' then v else v @ ''/'') @ ''olapy-data/cubes''
      \<and> get_cube_path w \<noteq> v)
   \<and> (environ w ''OLAPY_PATH'' = None \<longrightarrow>
      get_cube_path w =
        (if home w = [] \<or> last (home w) = CHR ''/'' then home w else home w @ ''/'') @ ''olapy-data/cubes'')"
  by (simp add: get_cube_path_def join_subpath)

theorem get_cube_path_appends_subpath_witness:
  "get_cube_path override_world = ''/data/olapy-data/cubes''
   \<and> get_cube_path (example_world None) = ''/home/u/olapy-data/cubes''"
  using get_cube_path_appends_subpath [of override_world "''/data''"]
    get_cube_path_appends_subpath [of "example_world None" "''''"]
  by (simp add: override_world_def example_world_def)

text \<open>
  C5 as stated fails: with \<^verbatim>\<open>OLAPY_PATH=/data\<close> the base path is not \<^verbatim>\<open>/data\<close>.
\<close>

theorem get_cube_path_override_not_exact:
  "get_cube_path override_world \<noteq> ''/data''"
  by (simp add: get_cube_path_def join_subpath override_world_def)

subsection \<open>Missing configuration file\<close>

text \<open>
  C7. When there is no file at the configuration path, \<open>construct_cubes\<close> raises the
  \<^verbatim>\<open>ValueError\<close> "Config file doesn't exist" and returns no cubes; the only file system
  call it has made is the existence check, so the file was neither opened nor decoded.
\<close>

theorem construct_cubes_missing_file:
  "files w (get_config_file_path self) = None \<Longrightarrow>
   construct_cubes w self =
     ([IsFile (get_config_file_path self)], Inl (ValueError ''Config file doesn't exist''))"
  by (simp add: construct_cubes_def config_file_exists_def)

theorem construct_cubes_missing_file_witness:
  "files (example_world None) (get_config_file_path example_parser) = None
   \<and> construct_cubes (example_world None) example_parser =
     ([IsFile ''/home/u/olapy-data/cubes/cubes-config.yml''],
      Inl (ValueError ''Config file doesn't exist''))"
  using construct_cubes_missing_file [of "example_world None" example_parser]
  by (simp add: example_parser_path example_world_files)

text \<open>
  C9. \<open>get_cubes_names\<close> never checks that the file exists. When there is no file at the
  configuration path it goes straight to \<^verbatim>\<open>open\<close>, whose file-not-found error is what
  the caller gets: not a default value, and not the \<^verbatim>\<open>ValueError\<close> that
  \<open>construct_cubes\<close> raises in the same situation.
\<close>

theorem get_cubes_names_no_existence_check:
  "IsFile p \<notin> set (fst (get_cubes_names w self))
   \<and> (files w (get_config_file_path self) = None \<longrightarrow>
        get_cubes_names w self = ([Open (get_config_file_path self)], Inl FileNotFoundError)
        \<and> snd (construct_cubes w self) = Inl (ValueError ''Config file doesn't exist''))"
  by (simp add: get_cubes_names_def with_config_def construct_cubes_def config_file_exists_def
      Let_def split: option.splits file_content.splits)

theorem get_cubes_names_no_existence_check_witness:
  "files (example_world None) (get_config_file_path example_parser) = None
   \<and> get_cubes_names (example_world None) example_parser =
       ([Open ''/home/u/olapy-data/cubes/cubes-config.yml''], Inl FileNotFoundError)"
  using get_cubes_names_no_existence_check [of "''x''" "example_world None" example_parser]
  by (simp add: example_parser_path example_world_files)

subsection \<open>Errors\<close>

text \<open>
  C4 (as amended). \<open>xmla_authentication\<close> returns \<^verbatim>\<open>False\<close> when there is no
  configuration file (after the existence check alone), when the lookup of the key fails
  (the document is not a dict, or the key is absent), and it returns the literal boolean
  stored under the key when there is one. Only the lookup is guarded: a file that cannot
  be decoded makes the call fail with the decoder's error.
\<close>

theorem xmla_authentication_cases:
  "(files w (get_config_file_path self) = None \<longrightarrow>
      xmla_authentication w self = ([IsFile (get_config_file_path self)], Inr (YBool False)))
   \<and> (files w (get_config_file_path self) = Some (Document config)
        \<and> subscript config ''xmla_authentication'' = Inl e \<longrightarrow>
      snd (xmla_authentication w self) = Inr (YBool False))
   \<and> (files w (get_config_file_path self) = Some (Document (YMap d))
        \<and> dict_get d (YStr ''xmla_authentication'') = None \<longrightarrow>
      snd (xmla_authentication w self) = Inr (YBool False))
   \<and> (files w (get_config_file_path self) = Some (Document (YMap d))
        \<and> dict_get d (YStr ''xmla_authentication'') = Some (YBool b) \<longrightarrow>
      snd (xmla_authentication w self) = Inr (YBool b))
   \<and> (files w (get_config_file_path self) = Some Malformed \<longrightarrow>
      snd (xmla_authentication w self) = Inl YAMLError)"
proof (intro conjI impI)
  assume "files w (get_config_file_path self) = None"
  then show "xmla_authentication w self = ([IsFile (get_config_file_path self)], Inr (YBool False))"
    by (simp add: xmla_authentication_def config_file_exists_def Let_def)
next
  assume "files w (get_config_file_path self) = Some (Document config)
        \<and> subscript config ''xmla_authentication'' = Inl e"
  then show "snd (xmla_authentication w self) = Inr (YBool False)"
    by (simp add: xmla_authentication_present)
next
  assume "files w (get_config_file_path self) = Some (Document (YMap d))
        \<and> dict_get d (YStr ''xmla_authentication'') = None"
  then show "snd (xmla_authentication w self) = Inr (YBool False)"
    by (simp add: xmla_authentication_present)
next
  assume "files w (get_config_file_path self) = Some (Document (YMap d))
        \<and> dict_get d (YStr ''xmla_authentication'') = Some (YBool b)"
  then show "snd (xmla_authentication w self) = Inr (YBool b)"
    by (simp add: xmla_authentication_present)
next
  assume "files w (get_config_file_path self) = Some Malformed"
  then show "snd (xmla_authentication w self) = Inl YAMLError"
    by (simp add: xmla_authentication_def config_file_exists_def with_config_def Let_def)
qed

theorem xmla_authentication_cases_witness:
  "xmla_authentication (example_world None) example_parser
     = ([IsFile ''/home/u/olapy-data/cubes/cubes-config.yml''], Inr (YBool False))
   \<and> snd (xmla_authentication (example_world (Some (Document (YSeq [])))) example_parser)
     = Inr (YBool False)
   \<and> snd (xmla_authentication (example_world (Some (Document no_facts))) example_parser)
     = Inr (YBool False)
   \<and> snd (xmla_authentication (example_world (Some (Document labster))) example_parser)
     = Inr (YBool True)
   \<and> snd (xmla_authentication (example_world (Some Malformed)) example_parser)
     = Inl YAMLError"
  using xmla_authentication_cases [of "example_world None" example_parser]
    xmla_authentication_cases [of "example_world (Some (Document (YSeq [])))" example_parser
      "YSeq []" TypeError]
    xmla_authentication_cases [of "example_world (Some (Document no_facts))" example_parser _ _
      "[(YStr ''name'', YStr ''labster''), (YStr ''source'', YStr ''csv''),
        (YStr ''dimensions'', YSeq [])]"]
    xmla_authentication_cases [of "example_world (Some (Document labster))" example_parser _ _
      "(YStr ''name'', YStr ''labster'') # (YStr ''source'', YStr ''csv'') # labster_body" True]
    xmla_authentication_cases [of "example_world (Some Malformed)" example_parser]
  by (simp add: example_parser_path example_world_files no_facts_def labster_def
      labster_body_def key_eq_def)

text \<open>
  C4 as stated fails: a value that is not a boolean is returned as it is, and a decoding
  failure is not turned into \<^verbatim>\<open>False\<close>.
\<close>

theorem xmla_authentication_not_absorbing:
  "snd (xmla_authentication
          (example_world (Some (Document (YMap [(YStr ''xmla_authentication'', YStr ''yes'')]))))
          example_parser) = Inr (YStr ''yes'')
   \<and> snd (xmla_authentication (example_world (Some Malformed)) example_parser) = Inl YAMLError"
  by (simp add: xmla_authentication_def config_file_exists_def with_config_def Let_def
      example_parser_path example_world_files key_eq_def)

text \<open>
  C6 (as amended). Nothing in \<open>construct_cubes\<close> catches a structural problem of the
  decoded document: it surfaces as the error of the lookup that failed, unchanged. Going
  through the construction in its order (the \<^verbatim>\<open>Facts\<close> with \<^verbatim>\<open>table_name\<close>, the two
  sequences of \<^verbatim>\<open>keys\<close>, their pairing and \<^verbatim>\<open>measures\<close>; the \<^verbatim>\<open>dimensions\<close> sequence and
  each of its entries with \<^verbatim>\<open>name\<close>, \<^verbatim>\<open>displayName\<close> and the \<^verbatim>\<open>columns\<close>; the \<^verbatim>\<open>name\<close> and
  \<^verbatim>\<open>source\<close> of the cube), the first step that fails gives its error to the caller. The
  error of a chain of subscripts is the \<^verbatim>\<open>KeyError\<close> that names the key missing from the
  dict reached so far, or a \<^verbatim>\<open>TypeError\<close> when the value reached is not a dict; a value
  that cannot be iterated and a column name that cannot be hashed give a \<^verbatim>\<open>TypeError\<close>. So
  every failure on a decoded document is a \<^verbatim>\<open>KeyError\<close> or a \<^verbatim>\<open>TypeError\<close>.
\<close>

theorem construct_cubes_errors_surface:
  assumes "files w (get_config_file_path self) = Some (Document config)"
  shows "(snd (construct_cubes w self) = Inl e \<longrightarrow>
        is_lookup_error e)
    \<and> (lookup_path config [''facts'', ''table_name''] = Inl e \<longrightarrow>
        snd (construct_cubes w self) = Inl e)
    \<and> (lookup_path config [''facts'', ''table_name''] = Inr tn
      \<and> lookup_path config [''facts'', ''keys'', ''columns_names''] = Inl e \<longrightarrow>
        snd (construct_cubes w self) = Inl e)
    \<and> (lookup_path config [''facts'', ''table_name''] = Inr tn
      \<and> lookup_path config [''facts'', ''keys'', ''columns_names''] = Inr cn
      \<and> lookup_path config [''facts'', ''keys'', ''refs''] = Inl e \<longrightarrow>
        snd (construct_cubes w self) = Inl e)
    \<and> (lookup_path config [''facts'', ''table_name''] = Inr tn
      \<and> lookup_path config [''facts'', ''keys'', ''columns_names''] = Inr cn
      \<and> lookup_path config [''facts'', ''keys'', ''refs''] = Inr rs
      \<and> and_then (py_zip cn rs) (dict_from Inr []) = Inl e \<longrightarrow>
        snd (construct_cubes w self) = Inl e)
    \<and> (lookup_path config [''facts'', ''table_name''] = Inr tn
      \<and> lookup_path config [''facts'', ''keys'', ''columns_names''] = Inr cn
      \<and> lookup_path config [''facts'', ''keys'', ''refs''] = Inr rs
      \<and> and_then (py_zip cn rs) (dict_from Inr []) = Inr ks
      \<and> lookup_path config [''facts'', ''measures''] = Inl e \<longrightarrow>
        snd (construct_cubes w self) = Inl e)
    \<and> (build_facts config = Inr f
      \<and> lookup_path config [''dimensions''] = Inl e \<longrightarrow>
        snd (construct_cubes w self) = Inl e)
    \<and> (build_facts config = Inr f
      \<and> lookup_path config [''dimensions''] = Inr ds
      \<and> py_iter ds = Inl e \<longrightarrow>
        snd (construct_cubes w self) = Inl e)
    \<and> (build_facts config = Inr f
      \<and> lookup_path config [''dimensions''] = Inr ds
      \<and> py_iter ds = Inr (pre @ entry # post)
      \<and> map_result build_dimension pre = Inr built
      \<and> build_dimension entry = Inl e \<longrightarrow>
        snd (construct_cubes w self) = Inl e)
    \<and> (build_facts_dimensions config = Inr x
      \<and> lookup_path config [''name''] = Inl e \<longrightarrow>
        snd (construct_cubes w self) = Inl e)
    \<and> (build_facts_dimensions config = Inr x
      \<and> lookup_path config [''name''] = Inr n
      \<and> lookup_path config [''source''] = Inl e \<longrightarrow>
        snd (construct_cubes w self) = Inl e)
    \<and> (lookup_path entry [''dimension'', ''name''] = Inl e \<longrightarrow>
        build_dimension entry = Inl e)
    \<and> (lookup_path entry [''dimension'', ''name''] = Inr dname
      \<and> lookup_path entry [''dimension'', ''displayName''] = Inl e \<longrightarrow>
        build_dimension entry = Inl e)
    \<and> (lookup_path entry [''dimension'', ''name''] = Inr dname
      \<and> lookup_path entry [''dimension'', ''displayName''] = Inr dn
      \<and> lookup_path entry [''dimension'', ''columns''] = Inr cols
      \<and> py_iter cols = Inl e \<longrightarrow>
        build_dimension entry = Inl e)
    \<and> (lookup_path entry [''dimension'', ''name''] = Inr dname
      \<and> lookup_path entry [''dimension'', ''displayName''] = Inr dn
      \<and> lookup_path entry [''dimension'', ''columns''] = Inr cols
      \<and> py_iter cols = Inr (cpre @ col # cpost)
      \<and> dict_from column_pair [] cpre = Inr acc
      \<and> lookup_path col [''name''] = Inl e \<longrightarrow>
        build_dimension entry = Inl e)
    \<and> (lookup_path entry [''dimension'', ''name''] = Inr dname
      \<and> lookup_path entry [''dimension'', ''displayName''] = Inr dn
      \<and> lookup_path entry [''dimension'', ''columns''] = Inr cols
      \<and> py_iter cols = Inr (cpre @ col # cpost)
      \<and> dict_from column_pair [] cpre = Inr acc
      \<and> lookup_path col [''name''] = Inr k
      \<and> \<not> hashable k \<longrightarrow>
        build_dimension entry = Inl TypeError)
    \<and> (lookup_path v path = Inl e \<longrightarrow>
        (\<exists>ppre key ppost u. path = ppre @ key # ppost \<and> lookup_path v ppre = Inr u
           \<and> ((\<exists>m. u = YMap m \<and> dict_get m (YStr key) = None \<and> e = KeyError key)
                \<or> ((\<forall>m. u \<noteq> YMap m) \<and> e = TypeError))))
    \<and> (lookup_path v ppre = Inr (YMap m)
      \<and> dict_get m (YStr key) = None \<longrightarrow>
        lookup_path v (ppre @ key # ppost) = Inl (KeyError key))
    \<and> (lookup_path v ppre = Inr u
      \<and> (\<forall>m. u \<noteq> YMap m) \<longrightarrow>
        lookup_path v (ppre @ key # ppost) = Inl TypeError)"
proof -
  have R: "snd (construct_cubes w self) = and_then (build_facts_dimensions config) build_cube"
    using assms by (simp add: construct_cubes_present)
  have a: "(snd (construct_cubes w self) = Inl e \<longrightarrow>
        is_lookup_error e)"
    using ole_build [of config] by (auto simp: R)
  have f1: "(lookup_path config [''facts'', ''table_name''] = Inl e \<longrightarrow>
        snd (construct_cubes w self) = Inl e)"
    by (simp add: R fail_facts build_facts_grouped)
  have f2: "(lookup_path config [''facts'', ''table_name''] = Inr tn
      \<and> lookup_path config [''facts'', ''keys'', ''columns_names''] = Inl e \<longrightarrow>
        snd (construct_cubes w self) = Inl e)"
    by (simp add: R fail_facts build_facts_grouped)
  have f3: "(lookup_path config [''facts'', ''table_name''] = Inr tn
      \<and> lookup_path config [''facts'', ''keys'', ''columns_names''] = Inr cn
      \<and> lookup_path config [''facts'', ''keys'', ''refs''] = Inl e \<longrightarrow>
        snd (construct_cubes w self) = Inl e)"
    by (simp add: R fail_facts build_facts_grouped)
  have f4: "(lookup_path config [''facts'', ''table_name''] = Inr tn
      \<and> lookup_path config [''facts'', ''keys'', ''columns_names''] = Inr cn
      \<and> lookup_path config [''facts'', ''keys'', ''refs''] = Inr rs
      \<and> and_then (py_zip cn rs) (dict_from Inr []) = Inl e \<longrightarrow>
        snd (construct_cubes w self) = Inl e)"
    by (simp add: R fail_facts build_facts_grouped)
  have f5: "(lookup_path config [''facts'', ''table_name''] = Inr tn
      \<and> lookup_path config [''facts'', ''keys'', ''columns_names''] = Inr cn
      \<and> lookup_path config [''facts'', ''keys'', ''refs''] = Inr rs
      \<and> and_then (py_zip cn rs) (dict_from Inr []) = Inr ks
      \<and> lookup_path config [''facts'', ''measures''] = Inl e \<longrightarrow>
        snd (construct_cubes w self) = Inl e)"
    by (simp add: R fail_facts build_facts_grouped)
  have d1: "(build_facts config = Inr f
      \<and> lookup_path config [''dimensions''] = Inl e \<longrightarrow>
        snd (construct_cubes w self) = Inl e)"
    by (simp add: R build_facts_dimensions_paths)
  have d2: "(build_facts config = Inr f
      \<and> lookup_path config [''dimensions''] = Inr ds
      \<and> py_iter ds = Inl e \<longrightarrow>
        snd (construct_cubes w self) = Inl e)"
    by (simp add: R build_facts_dimensions_paths)
  have d3: "(build_facts config = Inr f
      \<and> lookup_path config [''dimensions''] = Inr ds
      \<and> py_iter ds = Inr (pre @ entry # post)
      \<and> map_result build_dimension pre = Inr built
      \<and> build_dimension entry = Inl e \<longrightarrow>
        snd (construct_cubes w self) = Inl e)"
    by (simp add: R build_facts_dimensions_paths map_result_append_error)
  have i1: "(build_facts_dimensions config = Inr x
      \<and> lookup_path config [''name''] = Inl e \<longrightarrow>
        snd (construct_cubes w self) = Inl e)"
    using build_paths [of config x] by (auto simp: R)
  have i2: "(build_facts_dimensions config = Inr x
      \<and> lookup_path config [''name''] = Inr n
      \<and> lookup_path config [''source''] = Inl e \<longrightarrow>
        snd (construct_cubes w self) = Inl e)"
    using build_paths [of config x] by (auto simp: R)
  have e1: "(lookup_path entry [''dimension'', ''name''] = Inl e \<longrightarrow>
        build_dimension entry = Inl e)"
    by (simp add: build_dimension_paths)
  have e2: "(lookup_path entry [''dimension'', ''name''] = Inr dname
      \<and> lookup_path entry [''dimension'', ''displayName''] = Inl e \<longrightarrow>
        build_dimension entry = Inl e)"
    by (simp add: build_dimension_paths)
  have e3: "(lookup_path entry [''dimension'', ''name''] = Inr dname
      \<and> lookup_path entry [''dimension'', ''displayName''] = Inr dn
      \<and> lookup_path entry [''dimension'', ''columns''] = Inr cols
      \<and> py_iter cols = Inl e \<longrightarrow>
        build_dimension entry = Inl e)"
    by (simp add: build_dimension_paths has_columns)
  have e4: "(lookup_path entry [''dimension'', ''name''] = Inr dname
      \<and> lookup_path entry [''dimension'', ''displayName''] = Inr dn
      \<and> lookup_path entry [''dimension'', ''columns''] = Inr cols
      \<and> py_iter cols = Inr (cpre @ col # cpost)
      \<and> dict_from column_pair [] cpre = Inr acc
      \<and> lookup_path col [''name''] = Inl e \<longrightarrow>
        build_dimension entry = Inl e)"
    by (simp add: build_dimension_paths has_columns dict_from_append column_pair_paths)
  have e5: "(lookup_path entry [''dimension'', ''name''] = Inr dname
      \<and> lookup_path entry [''dimension'', ''displayName''] = Inr dn
      \<and> lookup_path entry [''dimension'', ''columns''] = Inr cols
      \<and> py_iter cols = Inr (cpre @ col # cpost)
      \<and> dict_from column_pair [] cpre = Inr acc
      \<and> lookup_path col [''name''] = Inr k
      \<and> \<not> hashable k \<longrightarrow>
        build_dimension entry = Inl TypeError)"
    using column_pair_key [of col k]
    by (auto simp: build_dimension_paths has_columns dict_from_append)
  have l1: "(lookup_path v path = Inl e \<longrightarrow>
        (\<exists>ppre key ppost u. path = ppre @ key # ppost \<and> lookup_path v ppre = Inr u
           \<and> ((\<exists>m. u = YMap m \<and> dict_get m (YStr key) = None \<and> e = KeyError key)
                \<or> ((\<forall>m. u \<noteq> YMap m) \<and> e = TypeError))))"
    using lookup_path_error [of v path e] subscript_error by metis
  have l2: "(lookup_path v ppre = Inr (YMap m)
      \<and> dict_get m (YStr key) = None \<longrightarrow>
        lookup_path v (ppre @ key # ppost) = Inl (KeyError key))"
    by (simp add: lookup_path_missing)
  have l3: "(lookup_path v ppre = Inr u
      \<and> (\<forall>m. u \<noteq> YMap m) \<longrightarrow>
        lookup_path v (ppre @ key # ppost) = Inl TypeError)"
    by (simp add: lookup_path_not_dict)
  show ?thesis
    by (intro conjI) (fact a, fact f1, fact f2, fact f3, fact f4, fact f5, fact d1, fact d2, fact d3, fact i1, fact i2, fact e1, fact e2, fact e3, fact e4, fact e5, fact l1, fact l2, fact l3)
qed

theorem construct_cubes_errors_surface_witness:
  "snd (construct_cubes (example_world (Some (Document no_table_name))) example_parser) = Inl (KeyError ''table_name'')
   \<and> is_lookup_error (KeyError ''table_name'')
   \<and> snd (construct_cubes (example_world (Some (Document no_keys))) example_parser) = Inl (KeyError ''keys'')
   \<and> snd (construct_cubes (example_world (Some (Document no_refs))) example_parser) = Inl (KeyError ''refs'')
   \<and> snd (construct_cubes (example_world (Some (Document bad_columns_names))) example_parser) = Inl TypeError
   \<and> snd (construct_cubes (example_world (Some (Document no_measures))) example_parser) = Inl (KeyError ''measures'')
   \<and> snd (construct_cubes (example_world (Some (Document no_dimensions))) example_parser) = Inl (KeyError ''dimensions'')
   \<and> snd (construct_cubes (example_world (Some (Document bad_dimensions))) example_parser) = Inl TypeError
   \<and> snd (construct_cubes (example_world (Some (Document bad_entry))) example_parser) = Inl (KeyError ''dimension'')
   \<and> snd (construct_cubes (example_world (Some (Document no_name))) example_parser) = Inl (KeyError ''name'')
   \<and> snd (construct_cubes (example_world (Some (Document no_source))) example_parser) = Inl (KeyError ''source'')
   \<and> build_dimension entry_no_name = Inl (KeyError ''name'')
   \<and> build_dimension entry_no_displayName = Inl (KeyError ''displayName'')
   \<and> build_dimension entry_bad_columns = Inl TypeError
   \<and> build_dimension entry_column_no_name = Inl (KeyError ''name'')
   \<and> build_dimension entry_column_bad_name = Inl TypeError
   \<and> (\<exists>ppre key ppost u. [''facts'', ''table_name''] = ppre @ key # ppost \<and> lookup_path no_table_name ppre = Inr u
           \<and> ((\<exists>m. u = YMap m \<and> dict_get m (YStr key) = None \<and> (KeyError ''table_name'') = KeyError key)
                \<or> ((\<forall>m. u \<noteq> YMap m) \<and> (KeyError ''table_name'') = TypeError)))
   \<and> lookup_path no_table_name ([''facts''] @ ''table_name'' # []) = Inl (KeyError ''table_name'')
   \<and> lookup_path bad_dimensions ([''dimensions''] @ ''dimension'' # []) = Inl TypeError"
proof -
  have file_f1: "files (example_world (Some (Document no_table_name))) (get_config_file_path example_parser) = Some (Document no_table_name)"
    by (simp add: example_parser_path example_world_files)
  have hyp_f1: "lookup_path no_table_name [''facts'', ''table_name''] = Inl (KeyError ''table_name'')"
    by (simp add: failing_documents lookup_path.simps key_eq_def good_facts_def
        good_facts_built_def build_facts_def py_zip_def build_facts_dimensions_def
        build_dimension_def time_dimension_def column_pair_def)
  have w_f1: "snd (construct_cubes (example_world (Some (Document no_table_name))) example_parser) = Inl (KeyError ''table_name'')"
    by (rule construct_cubes_errors_surface [OF file_f1, THEN conjunct2, THEN conjunct1, THEN mp, OF hyp_f1])
  have hyp_a: "snd (construct_cubes (example_world (Some (Document no_table_name))) example_parser) = Inl (KeyError ''table_name'')"
    by (rule w_f1)
  have w_a: "is_lookup_error (KeyError ''table_name'')"
    by (rule construct_cubes_errors_surface [OF file_f1, THEN conjunct1, THEN mp, OF hyp_a])
  have file_f2: "files (example_world (Some (Document no_keys))) (get_config_file_path example_parser) = Some (Document no_keys)"
    by (simp add: example_parser_path example_world_files)
  have hyp_f2: "lookup_path no_keys [''facts'', ''table_name''] = Inr (YStr ''stats_line'')
      \<and> lookup_path no_keys [''facts'', ''keys'', ''columns_names''] = Inl (KeyError ''keys'')"
    by (simp add: failing_documents lookup_path.simps key_eq_def good_facts_def
        good_facts_built_def build_facts_def py_zip_def build_facts_dimensions_def
        build_dimension_def time_dimension_def column_pair_def)
  have w_f2: "snd (construct_cubes (example_world (Some (Document no_keys))) example_parser) = Inl (KeyError ''keys'')"
    by (rule construct_cubes_errors_surface [OF file_f2, THEN conjunct2, THEN conjunct2, THEN conjunct1, THEN mp, OF hyp_f2])
  have file_f3: "files (example_world (Some (Document no_refs))) (get_config_file_path example_parser) = Some (Document no_refs)"
    by (simp add: example_parser_path example_world_files)
  have hyp_f3: "lookup_path no_refs [''facts'', ''table_name''] = Inr (YStr ''stats_line'')
      \<and> lookup_path no_refs [''facts'', ''keys'', ''columns_names''] = Inr (YSeq [])
      \<and> lookup_path no_refs [''facts'', ''keys'', ''refs''] = Inl (KeyError ''refs'')"
    by (simp add: failing_documents lookup_path.simps key_eq_def good_facts_def
        good_facts_built_def build_facts_def py_zip_def build_facts_dimensions_def
        build_dimension_def time_dimension_def column_pair_def)
  have w_f3: "snd (construct_cubes (example_world (Some (Document no_refs))) example_parser) = Inl (KeyError ''refs'')"
    by (rule construct_cubes_errors_surface [OF file_f3, THEN conjunct2, THEN conjunct2, THEN conjunct2, THEN conjunct1, THEN mp, OF hyp_f3])
  have file_f4: "files (example_world (Some (Document bad_columns_names))) (get_config_file_path example_parser) = Some (Document bad_columns_names)"
    by (simp add: example_parser_path example_world_files)
  have hyp_f4: "lookup_path bad_columns_names [''facts'', ''table_name''] = Inr (YStr ''stats_line'')
      \<and> lookup_path bad_columns_names [''facts'', ''keys'', ''columns_names''] = Inr YNull
      \<and> lookup_path bad_columns_names [''facts'', ''keys'', ''refs''] = Inr (YSeq [])
      \<and> and_then (py_zip YNull (YSeq [])) (dict_from Inr []) = Inl TypeError"
    by (simp add: failing_documents lookup_path.simps key_eq_def good_facts_def
        good_facts_built_def build_facts_def py_zip_def build_facts_dimensions_def
        build_dimension_def time_dimension_def column_pair_def)
  have w_f4: "snd (construct_cubes (example_world (Some (Document bad_columns_names))) example_parser) = Inl TypeError"
    by (rule construct_cubes_errors_surface [OF file_f4, THEN conjunct2, THEN conjunct2, THEN conjunct2, THEN conjunct2, THEN conjunct1, THEN mp, OF hyp_f4])
  have file_f5: "files (example_world (Some (Document no_measures))) (get_config_file_path example_parser) = Some (Document no_measures)"
    by (simp add: example_parser_path example_world_files)
  have hyp_f5: "lookup_path no_measures [''facts'', ''table_name''] = Inr (YStr ''stats_line'')
      \<and> lookup_path no_measures [''facts'', ''keys'', ''columns_names''] = Inr (YSeq [])
      \<and> lookup_path no_measures [''facts'', ''keys'', ''refs''] = Inr (YSeq [])
      \<and> and_then (py_zip (YSeq []) (YSeq [])) (dict_from Inr []) = Inr []
      \<and> lookup_path no_measures [''facts'', ''measures''] = Inl (KeyError ''measures'')"
    by (simp add: failing_documents lookup_path.simps key_eq_def good_facts_def
        good_facts_built_def build_facts_def py_zip_def build_facts_dimensions_def
        build_dimension_def time_dimension_def column_pair_def)
  have w_f5: "snd (construct_cubes (example_world (Some (Document no_measures))) example_parser) = Inl (KeyError ''measures'')"
    by (rule construct_cubes_errors_surface [OF file_f5, THEN conjunct2, THEN conjunct2, THEN conjunct2, THEN conjunct2, THEN conjunct2, THEN conjunct1, THEN mp, OF hyp_f5])
  have file_d1: "files (example_world (Some (Document no_dimensions))) (get_config_file_path example_parser) = Some (Document no_dimensions)"
    by (simp add: example_parser_path example_world_files)
  have hyp_d1: "build_facts no_dimensions = Inr good_facts_built
      \<and> lookup_path no_dimensions [''dimensions''] = Inl (KeyError ''dimensions'')"
    by (simp add: failing_documents lookup_path.simps key_eq_def good_facts_def
        good_facts_built_def build_facts_def py_zip_def build_facts_dimensions_def
        build_dimension_def time_dimension_def column_pair_def)
  have w_d1: "snd (construct_cubes (example_world (Some (Document no_dimensions))) example_parser) = Inl (KeyError ''dimensions'')"
    by (rule construct_cubes_errors_surface [OF file_d1, THEN conjunct2, THEN conjunct2, THEN conjunct2, THEN conjunct2, THEN conjunct2, THEN conjunct2, THEN conjunct1, THEN mp, OF hyp_d1])
  have file_d2: "files (example_world (Some (Document bad_dimensions))) (get_config_file_path example_parser) = Some (Document bad_dimensions)"
    by (simp add: example_parser_path example_world_files)
  have hyp_d2: "build_facts bad_dimensions = Inr good_facts_built
      \<and> lookup_path bad_dimensions [''dimensions''] = Inr YNull
      \<and> py_iter YNull = Inl TypeError"
    by (simp add: failing_documents lookup_path.simps key_eq_def good_facts_def
        good_facts_built_def build_facts_def py_zip_def build_facts_dimensions_def
        build_dimension_def time_dimension_def column_pair_def)
  have w_d2: "snd (construct_cubes (example_world (Some (Document bad_dimensions))) example_parser) = Inl TypeError"
    by (rule construct_cubes_errors_surface [OF file_d2, THEN conjunct2, THEN conjunct2, THEN conjunct2, THEN conjunct2, THEN conjunct2, THEN conjunct2, THEN conjunct2, THEN conjunct1, THEN mp, OF hyp_d2])
  have file_d3: "files (example_world (Some (Document bad_entry))) (get_config_file_path example_parser) = Some (Document bad_entry)"
    by (simp add: example_parser_path example_world_files)
  have hyp_d3: "build_facts bad_entry = Inr good_facts_built
      \<and> lookup_path bad_entry [''dimensions''] = Inr (YSeq [time_dimension, YMap []])
      \<and> py_iter (YSeq [time_dimension, YMap []]) = Inr ([time_dimension] @ (YMap []) # [])
      \<and> map_result build_dimension [time_dimension] = Inr [\<lparr> Dimension.name = YStr ''time'', displayName = YStr ''Time'', columns = [] \<rparr>]
      \<and> build_dimension (YMap []) = Inl (KeyError ''dimension'')"
    by (simp add: failing_documents lookup_path.simps key_eq_def good_facts_def
        good_facts_built_def build_facts_def py_zip_def build_facts_dimensions_def
        build_dimension_def time_dimension_def column_pair_def)
  have w_d3: "snd (construct_cubes (example_world (Some (Document bad_entry))) example_parser) = Inl (KeyError ''dimension'')"
    by (rule construct_cubes_errors_surface [OF file_d3, THEN conjunct2, THEN conjunct2, THEN conjunct2, THEN conjunct2, THEN conjunct2, THEN conjunct2, THEN conjunct2, THEN conjunct2, THEN conjunct1, THEN mp, OF hyp_d3])
  have file_i1: "files (example_world (Some (Document no_name))) (get_config_file_path example_parser) = Some (Document no_name)"
    by (simp add: example_parser_path example_world_files)
  have hyp_i1: "build_facts_dimensions no_name = Inr (no_name, [good_facts_built], [])
      \<and> lookup_path no_name [''name''] = Inl (KeyError ''name'')"
    by (simp add: failing_documents lookup_path.simps key_eq_def good_facts_def
        good_facts_built_def build_facts_def py_zip_def build_facts_dimensions_def
        build_dimension_def time_dimension_def column_pair_def)
  have w_i1: "snd (construct_cubes (example_world (Some (Document no_name))) example_parser) = Inl (KeyError ''name'')"
    by (rule construct_cubes_errors_surface [OF file_i1, THEN conjunct2, THEN conjunct2, THEN conjunct2, THEN conjunct2, THEN conjunct2, THEN conjunct2, THEN conjunct2, THEN conjunct2, THEN conjunct2, THEN conjunct1, THEN mp, OF hyp_i1])
  have file_i2: "files (example_world (Some (Document no_source))) (get_config_file_path example_parser) = Some (Document no_source)"
    by (simp add: example_parser_path example_world_files)
  have hyp_i2: "build_facts_dimensions no_source = Inr (no_source, [good_facts_built], [])
      \<and> lookup_path no_source [''name''] = Inr (YStr ''labster'')
      \<and> lookup_path no_source [''source''] = Inl (KeyError ''source'')"
    by (simp add: failing_documents lookup_path.simps key_eq_def good_facts_def
        good_facts_built_def build_facts_def py_zip_def build_facts_dimensions_def
        build_dimension_def time_dimension_def column_pair_def)
  have w_i2: "snd (construct_cubes (example_world (Some (Document no_source))) example_parser) = Inl (KeyError ''source'')"
    by (rule construct_cubes_errors_surface [OF file_i2, THEN conjunct2, THEN conjunct2, THEN conjunct2, THEN conjunct2, THEN conjunct2, THEN conjunct2, THEN conjunct2, THEN conjunct2, THEN conjunct2, THEN conjunct2, THEN conjunct1, THEN mp, OF hyp_i2])
  have hyp_e1: "lookup_path entry_no_name [''dimension'', ''name''] = Inl (KeyError ''name'')"
    by (simp add: failing_documents lookup_path.simps key_eq_def good_facts_def
        good_facts_built_def build_facts_def py_zip_def build_facts_dimensions_def
        build_dimension_def time_dimension_def column_pair_def)
  have w_e1: "build_dimension entry_no_name = Inl (KeyError ''name'')"
    by (rule construct_cubes_errors_surface [OF file_f1, THEN conjunct2, THEN conjunct2, THEN conjunct2, THEN conjunct2, THEN conjunct2, THEN conjunct2, THEN conjunct2, THEN conjunct2, THEN conjunct2, THEN conjunct2, THEN conjunct2, THEN conjunct1, THEN mp, OF hyp_e1])
  have hyp_e2: "lookup_path entry_no_displayName [''dimension'', ''name''] = Inr (YStr ''time'')
      \<and> lookup_path entry_no_displayName [''dimension'', ''displayName''] = Inl (KeyError ''displayName'')"
    by (simp add: failing_documents lookup_path.simps key_eq_def good_facts_def
        good_facts_built_def build_facts_def py_zip_def build_facts_dimensions_def
        build_dimension_def time_dimension_def column_pair_def)
  have w_e2: "build_dimension entry_no_displayName = Inl (KeyError ''displayName'')"
    by (rule construct_cubes_errors_surface [OF file_f1, THEN conjunct2, THEN conjunct2, THEN conjunct2, THEN conjunct2, THEN conjunct2, THEN conjunct2, THEN conjunct2, THEN conjunct2, THEN conjunct2, THEN conjunct2, THEN conjunct2, THEN conjunct2, THEN conjunct1, THEN mp, OF hyp_e2])
  have hyp_e3: "lookup_path entry_bad_columns [''dimension'', ''name''] = Inr (YStr ''time'')
      \<and> lookup_path entry_bad_columns [''dimension'', ''displayName''] = Inr (YStr ''Time'')
      \<and> lookup_path entry_bad_columns [''dimension'', ''columns''] = Inr YNull
      \<and> py_iter YNull = Inl TypeError"
    by (simp add: failing_documents lookup_path.simps key_eq_def good_facts_def
        good_facts_built_def build_facts_def py_zip_def build_facts_dimensions_def
        build_dimension_def time_dimension_def column_pair_def)
  have w_e3: "build_dimension entry_bad_columns = Inl TypeError"
    by (rule construct_cubes_errors_surface [OF file_f1, THEN conjunct2, THEN conjunct2, THEN conjunct2, THEN conjunct2, THEN conjunct2, THEN conjunct2, THEN conjunct2, THEN conjunct2, THEN conjunct2, THEN conjunct2, THEN conjunct2, THEN conjunct2, THEN conjunct2, THEN conjunct1, THEN mp, OF hyp_e3])
  have hyp_e4: "lookup_path entry_column_no_name [''dimension'', ''name''] = Inr (YStr ''time'')
      \<and> lookup_path entry_column_no_name [''dimension'', ''displayName''] = Inr (YStr ''Time'')
      \<and> lookup_path entry_column_no_name [''dimension'', ''columns''] = Inr (YSeq [YMap [(YStr ''name'', YStr ''type'')], YMap []])
      \<and> py_iter (YSeq [YMap [(YStr ''name'', YStr ''type'')], YMap []]) = Inr ([YMap [(YStr ''name'', YStr ''type'')]] @ (YMap []) # [])
      \<and> dict_from column_pair [] [YMap [(YStr ''name'', YStr ''type'')]] = Inr [(YStr ''type'', YStr ''type'')]
      \<and> lookup_path (YMap []) [''name''] = Inl (KeyError ''name'')"
    by (simp add: failing_documents lookup_path.simps key_eq_def good_facts_def
        good_facts_built_def build_facts_def py_zip_def build_facts_dimensions_def
        build_dimension_def time_dimension_def column_pair_def)
  have w_e4: "build_dimension entry_column_no_name = Inl (KeyError ''name'')"
    by (rule construct_cubes_errors_surface [OF file_f1, THEN conjunct2, THEN conjunct2, THEN conjunct2, THEN conjunct2, THEN conjunct2, THEN conjunct2, THEN conjunct2, THEN conjunct2, THEN conjunct2, THEN conjunct2, THEN conjunct2, THEN conjunct2, THEN conjunct2, THEN conjunct2, THEN conjunct1, THEN mp, OF hyp_e4])
  have hyp_e5: "lookup_path entry_column_bad_name [''dimension'', ''name''] = Inr (YStr ''time'')
      \<and> lookup_path entry_column_bad_name [''dimension'', ''displayName''] = Inr (YStr ''Time'')
      \<and> lookup_path entry_column_bad_name [''dimension'', ''columns''] = Inr (YSeq [YMap [(YStr ''name'', YSeq [])]])
      \<and> py_iter (YSeq [YMap [(YStr ''name'', YSeq [])]]) = Inr ([] @ (YMap [(YStr ''name'', YSeq [])]) # [])
      \<and> dict_from column_pair [] [] = Inr []
      \<and> lookup_path (YMap [(YStr ''name'', YSeq [])]) [''name''] = Inr (YSeq [])
      \<and> \<not> hashable (YSeq [])"
    by (simp add: failing_documents lookup_path.simps key_eq_def good_facts_def
        good_facts_built_def build_facts_def py_zip_def build_facts_dimensions_def
        build_dimension_def time_dimension_def column_pair_def)
  have w_e5: "build_dimension entry_column_bad_name = Inl TypeError"
    by (rule construct_cubes_errors_surface [OF file_f1, THEN conjunct2, THEN conjunct2, THEN conjunct2, THEN conjunct2, THEN conjunct2, THEN conjunct2, THEN conjunct2, THEN conjunct2, THEN conjunct2, THEN conjunct2, THEN conjunct2, THEN conjunct2, THEN conjunct2, THEN conjunct2, THEN conjunct2, THEN conjunct1, THEN mp, OF hyp_e5])
  have hyp_l1: "lookup_path no_table_name [''facts'', ''table_name''] = Inl (KeyError ''table_name'')"
    by (simp add: failing_documents lookup_path.simps key_eq_def good_facts_def
        good_facts_built_def build_facts_def py_zip_def build_facts_dimensions_def
        build_dimension_def time_dimension_def column_pair_def)
  have w_l1: "(\<exists>ppre key ppost u. [''facts'', ''table_name''] = ppre @ key # ppost \<and> lookup_path no_table_name ppre = Inr u
           \<and> ((\<exists>m. u = YMap m \<and> dict_get m (YStr key) = None \<and> (KeyError ''table_name'') = KeyError key)
                \<or> ((\<forall>m. u \<noteq> YMap m) \<and> (KeyError ''table_name'') = TypeError)))"
    by (rule construct_cubes_errors_surface [OF file_f1, THEN conjunct2, THEN conjunct2, THEN conjunct2, THEN conjunct2, THEN conjunct2, THEN conjunct2, THEN conjunct2, THEN conjunct2, THEN conjunct2, THEN conjunct2, THEN conjunct2, THEN conjunct2, THEN conjunct2, THEN conjunct2, THEN conjunct2, THEN conjunct2, THEN conjunct1, THEN mp, OF hyp_l1])
  have hyp_l2: "lookup_path no_table_name [''facts''] = Inr (YMap [])
      \<and> dict_get [] (YStr ''table_name'') = None"
    by (simp add: failing_documents lookup_path.simps key_eq_def good_facts_def
        good_facts_built_def build_facts_def py_zip_def build_facts_dimensions_def
        build_dimension_def time_dimension_def column_pair_def)
  have w_l2: "lookup_path no_table_name ([''facts''] @ ''table_name'' # []) = Inl (KeyError ''table_name'')"
    by (rule construct_cubes_errors_surface [OF file_f1, THEN conjunct2, THEN conjunct2, THEN conjunct2, THEN conjunct2, THEN conjunct2, THEN conjunct2, THEN conjunct2, THEN conjunct2, THEN conjunct2, THEN conjunct2, THEN conjunct2, THEN conjunct2, THEN conjunct2, THEN conjunct2, THEN conjunct2, THEN conjunct2, THEN conjunct2, THEN conjunct1, THEN mp, OF hyp_l2])
  have hyp_l3: "lookup_path bad_dimensions [''dimensions''] = Inr YNull
      \<and> (\<forall>m. YNull \<noteq> YMap m)"
    by (simp add: failing_documents lookup_path.simps key_eq_def good_facts_def
        good_facts_built_def build_facts_def py_zip_def build_facts_dimensions_def
        build_dimension_def time_dimension_def column_pair_def)
  have w_l3: "lookup_path bad_dimensions ([''dimensions''] @ ''dimension'' # []) = Inl TypeError"
    by (rule construct_cubes_errors_surface [OF file_f1, THEN conjunct2, THEN conjunct2, THEN conjunct2, THEN conjunct2, THEN conjunct2, THEN conjunct2, THEN conjunct2, THEN conjunct2, THEN conjunct2, THEN conjunct2, THEN conjunct2, THEN conjunct2, THEN conjunct2, THEN conjunct2, THEN conjunct2, THEN conjunct2, THEN conjunct2, THEN conjunct2, THEN mp, OF hyp_l3])
  show ?thesis
    by (intro conjI) (fact w_f1, fact w_a, fact w_f2, fact w_f3, fact w_f4, fact w_f5, fact w_d1, fact w_d2, fact w_d3, fact w_i1, fact w_i2, fact w_e1, fact w_e2, fact w_e3, fact w_e4, fact w_e5, fact w_l1, fact w_l2, fact w_l3)
qed

text \<open>
  C6 as stated fails: for a document without \<^verbatim>\<open>facts\<close> the error is not the
  \<^verbatim>\<open>ValueError\<close> "Bad configuration in the configuration file" (in either spelling).
\<close>

theorem construct_cubes_error_not_wrapped:
  "snd (construct_cubes (example_world (Some (Document no_facts))) example_parser)
     = Inl (KeyError ''facts'')
   \<and> snd (construct_cubes (example_world (Some (Document no_facts))) example_parser)
     \<noteq> Inl (ValueError ''bad configuration in the configuration file'')
   \<and> snd (construct_cubes (example_world (Some (Document no_facts))) example_parser)
     \<noteq> Inl (ValueError ''Bad configuration in the configuration file'')"
  by (simp add: construct_cubes_present example_parser_path example_world_files no_facts_def
      build_no_facts key_eq_def)

text \<open>
  C8 (as amended). When the document is a dict without \<^verbatim>\<open>name\<close> or without
  \<^verbatim>\<open>source\<close>, \<open>get_cubes_names\<close> raises \<^verbatim>\<open>ValueError('missed name or source tags')\<close>
  (the file is closed on the way out) and nothing swallows it; \<open>construct_cubes\<close> on the same
  document fails with the \<^verbatim>\<open>KeyError\<close> or \<^verbatim>\<open>TypeError\<close> of a lookup.
\<close>

theorem get_cubes_names_missing_identity:
  assumes "files w (get_config_file_path self) = Some (Document (YMap d))"
    and "dict_get d (YStr ''name'') = None \<or> dict_get d (YStr ''source'') = None"
  shows "get_cubes_names w self =
           ([Open (get_config_file_path self), YamlLoad (get_config_file_path self),
             Close (get_config_file_path self)],
            Inl (ValueError ''missed name or source tags''))
         \<and> (\<exists>e. snd (construct_cubes w self) = Inl e \<and> is_lookup_error e)"
proof
  show "get_cubes_names w self =
           ([Open (get_config_file_path self), YamlLoad (get_config_file_path self),
             Close (get_config_file_path self)],
            Inl (ValueError ''missed name or source tags''))"
    using assms by (auto simp: get_cubes_names_present split: option.splits)
next
  obtain e where e: "and_then (build_facts_dimensions (YMap d)) build_cube = Inl e"
    using build_missing_identity [OF assms(2)] by blast
  have "is_lookup_error e" using ole_build [of "YMap d"] e by simp
  then show "\<exists>e. snd (construct_cubes w self) = Inl e \<and> is_lookup_error e"
    using e assms(1) by (simp add: construct_cubes_present)
qed

theorem get_cubes_names_missing_identity_witness:
  "get_cubes_names (example_world (Some (Document nameless))) example_parser =
     ([Open ''/home/u/olapy-data/cubes/cubes-config.yml'',
       YamlLoad ''/home/u/olapy-data/cubes/cubes-config.yml'',
       Close ''/home/u/olapy-data/cubes/cubes-config.yml''],
      Inl (ValueError ''missed name or source tags''))"
  using get_cubes_names_missing_identity [of "example_world (Some (Document nameless))"
      example_parser "(YStr ''source'', YStr ''csv'') # labster_body"]
  by (simp add: example_parser_path example_world_files nameless_def labster_body_def key_eq_def)

text \<open>
  C8 as stated fails: the message is not "missing name or source", and on the
  \<open>construct_cubes\<close> path a document without \<^verbatim>\<open>name\<close> raises \<^verbatim>\<open>KeyError('name')\<close>.
\<close>

theorem missing_identity_message_and_kind:
  "snd (get_cubes_names (example_world (Some (Document nameless))) example_parser)
     \<noteq> Inl (ValueError ''missing name or source'')
   \<and> snd (construct_cubes (example_world (Some (Document nameless))) example_parser)
     = Inl (KeyError ''name'')"
  by (simp add: get_cubes_names_present construct_cubes_present example_parser_path
      example_world_files nameless_def labster_body_def orgunit_dimension_def time_dimension_def key_eq_def build_facts_dimensions_def
      build_facts_def build_dimension_def build_cube_def column_pair_def py_zip_def)

subsection \<open>The keys of the facts\<close>

text \<open>
  C2. When \<^verbatim>\<open>facts.keys\<close> lists \<^verbatim>\<open>columns_names\<close> and \<^verbatim>\<open>refs\<close> as two sequences (the
  names that get paired being hashable, as strings are), the \<^verbatim>\<open>Facts\<close> is built and its
  \<^verbatim>\<open>keys\<close> is the dict of the position-by-position pairing: looking a name up gives the
  reference paired with it, and when the names are pairwise different the dict is exactly
  the list of pairs in order. A difference in length raises nothing: the result is the
  one built from both sequences cut to the length of the shorter. For
  \<^verbatim>\<open>["departement_id"]\<close> and \<^verbatim>\<open>["orgunit.id"]\<close> it is \<^verbatim>\<open>{"departement_id": "orgunit.id"}\<close>.
\<close>

theorem facts_keys_pairing:
  assumes "subscript config ''facts'' = Inr f"
    and "subscript f ''table_name'' = Inr tn"
    and "subscript f ''keys'' = Inr k"
    and "subscript k ''columns_names'' = Inr (YSeq cn)"
    and "subscript k ''refs'' = Inr (YSeq rs)"
    and "subscript f ''measures'' = Inr m"
    and "list_all hashable (take (length rs) cn)"
  shows "\<exists>ks. build_facts config = Inr \<lparr> table_name = tn, keys = ks, measures = m \<rparr>
           \<and> dict_from Inr [] (zip (take (min (length cn) (length rs)) cn)
                                   (take (min (length cn) (length rs)) rs)) = Inr ks
           \<and> (\<forall>key. dict_get ks key = map_of (rev (zip (map key_norm cn) rs)) (key_norm key))
           \<and> (distinct (map key_norm (take (length rs) cn)) \<longrightarrow>
                ks = zip (take (min (length cn) (length rs)) cn)
                         (take (min (length cn) (length rs)) rs))"
proof -
  let ?ks = "foldl (\<lambda>acc p. dict_set acc (fst p) (snd p)) [] (zip cn rs)"
  have d: "dict_from Inr [] (zip cn rs) = Inr ?ks"
    using assms(7) by (rule dict_from_zip)
  have "build_facts config = Inr \<lparr> table_name = tn, keys = ?ks, measures = m \<rparr>"
    using build_facts_eq [OF assms(1-6)] d by simp
  moreover have "dict_from Inr [] (zip (take (min (length cn) (length rs)) cn)
                                   (take (min (length cn) (length rs)) rs)) = Inr ?ks"
    using d zip_truncate [of cn rs] by simp
  moreover have "\<forall>key. dict_get ?ks key = map_of (rev (zip (map key_norm cn) rs)) (key_norm key)"
    by (simp add: dict_get_zip)
  moreover have "distinct (map key_norm (take (length rs) cn)) \<longrightarrow>
                ?ks = zip (take (min (length cn) (length rs)) cn)
                         (take (min (length cn) (length rs)) rs)"
    using dict_zip_distinct [of rs cn] zip_truncate [of cn rs] by simp
  ultimately show ?thesis by blast
qed

theorem facts_keys_pairing_witness:
  "(\<exists>ks. build_facts (facts_doc [YStr ''departement_id''] [YStr ''orgunit.id''])
           = Inr \<lparr> table_name = YStr ''stats_line'', keys = ks, measures = YSeq [YStr ''montant''] \<rparr>
         \<and> ks = [(YStr ''departement_id'', YStr ''orgunit.id'')])
   \<and> (\<exists>ks. build_facts (facts_doc [YStr ''a'', YStr ''b''] [YStr ''t.x''])
           = Inr \<lparr> table_name = YStr ''stats_line'', keys = ks, measures = YSeq [YStr ''montant''] \<rparr>
         \<and> ks = [(YStr ''a'', YStr ''t.x'')])"
  using facts_keys_pairing [OF facts_doc_subscripts,
      where tn = "YStr ''stats_line''" and cn = "[YStr ''departement_id'']"
        and rs = "[YStr ''orgunit.id'']" and m = "YSeq [YStr ''montant'']"]
    facts_keys_pairing [OF facts_doc_subscripts,
      where tn = "YStr ''stats_line''" and cn = "[YStr ''a'', YStr ''b'']"
        and rs = "[YStr ''t.x'']" and m = "YSeq [YStr ''montant'']"]
  by (simp add: key_eq_def)

text \<open>
  C10 (as amended). When a name occurs more than once in \<^verbatim>\<open>columns_names\<close> (the paired
  names being hashable), no error is raised: the \<^verbatim>\<open>Facts\<close> is built, its \<^verbatim>\<open>keys\<close> has
  fewer entries than \<^verbatim>\<open>columns_names\<close>, and each name occurs in it once. A name is mapped
  to the reference at its last occurrence among the names that are paired with a
  reference, those at the positions below the length of \<^verbatim>\<open>refs\<close>; when a name is repeated
  among these, \<^verbatim>\<open>keys\<close> has fewer entries than there are pairs.
\<close>

theorem facts_keys_duplicate_names:
  assumes "subscript config ''facts'' = Inr f"
    and "subscript f ''table_name'' = Inr tn"
    and "subscript f ''keys'' = Inr k"
    and "subscript k ''columns_names'' = Inr (YSeq cn)"
    and "subscript k ''refs'' = Inr (YSeq rs)"
    and "subscript f ''measures'' = Inr m"
    and "list_all hashable (take (length rs) cn)"
    and "\<not> distinct (map key_norm cn)"
  shows "\<exists>ks. build_facts config = Inr \<lparr> table_name = tn, keys = ks, measures = m \<rparr>
           \<and> length ks < length cn
           \<and> (\<not> distinct (map key_norm (take (length rs) cn)) \<longrightarrow>
                length ks < min (length cn) (length rs))
           \<and> distinct (norm_keys ks)
           \<and> (\<forall>i. i < min (length cn) (length rs)
                 \<and> (\<forall>j. i < j \<and> j < min (length cn) (length rs) \<longrightarrow> \<not> key_eq (cn ! j) (cn ! i))
                 \<longrightarrow> dict_get ks (cn ! i) = Some (rs ! i))"
proof -
  let ?ks = "foldl (\<lambda>acc p. dict_set acc (fst p) (snd p)) [] (zip cn rs)"
  let ?xs = "zip (map key_norm cn) rs"
  have d: "dict_from Inr [] (zip cn rs) = Inr ?ks"
    using assms(7) by (rule dict_from_zip)
  have b: "build_facts config = Inr \<lparr> table_name = tn, keys = ?ks, measures = m \<rparr>"
    using build_facts_eq [OF assms(1-6)] d by simp
  have lk: "length ?ks = card (set (map key_norm (take (length rs) cn)))"
    by (rule dict_zip_length)
  have "card (set (map key_norm cn)) < length (map key_norm cn)"
    using assms(8) by (rule card_not_distinct)
  then have short: "length ?ks < length cn"
    using lk card_norm_take [of "length rs" cn] by simp
  have len: "\<not> distinct (map key_norm (take (length rs) cn)) \<longrightarrow>
                length ?ks < min (length cn) (length rs)"
  proof
    assume nd: "\<not> distinct (map key_norm (take (length rs) cn))"
    define n where "n = min (length cn) (length rs)"
    have ln: "length (map key_norm (take (length rs) cn)) = n"
      by (simp add: n_def min.commute)
    have "card (set (map key_norm (take (length rs) cn))) < n"
      using card_not_distinct [OF nd] by (simp only: ln)
    then have "length ?ks < n" using lk by simp
    then show "length ?ks < min (length cn) (length rs)" by (simp only: n_def)
  qed
  have dist: "distinct (norm_keys ?ks)"
    by (rule foldl_dict_set_keys_distinct) simp
  have last: "\<forall>i. i < min (length cn) (length rs)
                 \<and> (\<forall>j. i < j \<and> j < min (length cn) (length rs) \<longrightarrow> \<not> key_eq (cn ! j) (cn ! i))
                 \<longrightarrow> dict_get ?ks (cn ! i) = Some (rs ! i)"
  proof (intro allI impI)
    fix i
    assume h: "i < min (length cn) (length rs)
                 \<and> (\<forall>j. i < j \<and> j < min (length cn) (length rs) \<longrightarrow> \<not> key_eq (cn ! j) (cn ! i))"
    have i: "i < length ?xs" using h by simp
    have "\<forall>j. i < j \<and> j < length ?xs \<longrightarrow> fst (?xs ! j) \<noteq> fst (?xs ! i)"
      using h by (simp add: key_eq_def)
    then have "map_of (rev ?xs) (fst (?xs ! i)) = Some (snd (?xs ! i))"
      using map_of_rev_last [OF i] by blast
    then show "dict_get ?ks (cn ! i) = Some (rs ! i)"
      using h by (simp add: dict_get_zip)
  qed
  show ?thesis using b short len dist last by blast
qed

theorem facts_keys_duplicate_names_witness:
  "(\<exists>ks. build_facts (facts_doc [YStr ''a'', YStr ''b'', YStr ''a''] [YStr ''t.x'', YStr ''t.y'', YStr ''t.z''])
           = Inr \<lparr> table_name = YStr ''stats_line'', keys = ks, measures = YSeq [YStr ''montant''] \<rparr>
         \<and> length ks < 3
         \<and> dict_get ks (YStr ''a'') = Some (YStr ''t.z'')
         \<and> dict_get ks (YStr ''b'') = Some (YStr ''t.y''))
   \<and> (\<exists>ks. build_facts (facts_doc [YStr ''a'', YStr ''b'', YStr ''a''] [YStr ''t.x'', YStr ''t.y''])
           = Inr \<lparr> table_name = YStr ''stats_line'', keys = ks, measures = YSeq [YStr ''montant''] \<rparr>
         \<and> length ks < 3
         \<and> dict_get ks (YStr ''a'') = Some (YStr ''t.x'')
         \<and> dict_get ks (YStr ''b'') = Some (YStr ''t.y''))"
proof
  let ?cn = "[YStr ''a'', YStr ''b'', YStr ''a'']"
  let ?rs = "[YStr ''t.x'', YStr ''t.y'', YStr ''t.z'']"
  let ?k = "YMap [(YStr ''columns_names'', YSeq ?cn), (YStr ''refs'', YSeq ?rs)]"
  let ?f = "YMap [(YStr ''table_name'', YStr ''stats_line''), (YStr ''keys'', ?k),
                  (YStr ''measures'', YSeq [YStr ''montant''])]"
  have s1: "subscript (facts_doc ?cn ?rs) ''facts'' = Inr ?f"
    by (rule facts_doc_subscripts)
  have s2: "subscript ?f ''table_name'' = Inr (YStr ''stats_line'')"
    by (simp add: key_eq_def)
  have s3: "subscript ?f ''keys'' = Inr ?k"
    by (simp add: key_eq_def)
  have s4: "subscript ?k ''columns_names'' = Inr (YSeq ?cn)"
    by (simp add: key_eq_def)
  have s5: "subscript ?k ''refs'' = Inr (YSeq ?rs)"
    by (simp add: key_eq_def)
  have s6: "subscript ?f ''measures'' = Inr (YSeq [YStr ''montant''])"
    by (simp add: key_eq_def)
  have h7: "list_all hashable (take (length ?rs) ?cn)"
    by simp
  have h8: "\<not> distinct (map key_norm ?cn)"
    by simp
  obtain ks where b: "build_facts (facts_doc ?cn ?rs)
        = Inr \<lparr> table_name = YStr ''stats_line'', keys = ks, measures = YSeq [YStr ''montant''] \<rparr>"
    and len: "length ks < length ?cn"
    and last: "\<forall>i. i < min (length ?cn) (length ?rs)
                 \<and> (\<forall>j. i < j \<and> j < min (length ?cn) (length ?rs) \<longrightarrow> \<not> key_eq (?cn ! j) (?cn ! i))
                 \<longrightarrow> dict_get ks (?cn ! i) = Some (?rs ! i)"
    using facts_keys_duplicate_names [OF s1 s2 s3 s4 s5 s6 h7 h8] by blast
  have m: "min (length ?cn) (length ?rs) = 3" by simp
  have p2: "2 < (3::nat) \<and> (\<forall>j. 2 < j \<and> j < 3 \<longrightarrow> \<not> key_eq (?cn ! j) (?cn ! 2))"
    by auto
  have "dict_get ks (?cn ! 2) = Some (?rs ! 2)"
    using last [unfolded m, rule_format, OF p2] .
  then have a: "dict_get ks (YStr ''a'') = Some (YStr ''t.z'')" by simp
  have p1: "1 < (3::nat) \<and> (\<forall>j. 1 < j \<and> j < 3 \<longrightarrow> \<not> key_eq (?cn ! j) (?cn ! 1))"
  proof (intro conjI allI impI)
    show "1 < (3::nat)" by simp
  next
    fix j :: nat
    assume "1 < j \<and> j < 3"
    then have "j = 2" by arith
    then show "\<not> key_eq (?cn ! j) (?cn ! 1)" by (simp add: key_eq_def)
  qed
  have "dict_get ks (?cn ! 1) = Some (?rs ! 1)"
    using last [unfolded m, rule_format, OF p1] .
  then have bb: "dict_get ks (YStr ''b'') = Some (YStr ''t.y'')" by simp
  show "\<exists>ks. build_facts (facts_doc ?cn ?rs)
           = Inr \<lparr> table_name = YStr ''stats_line'', keys = ks, measures = YSeq [YStr ''montant''] \<rparr>
         \<and> length ks < 3
         \<and> dict_get ks (YStr ''a'') = Some (YStr ''t.z'')
         \<and> dict_get ks (YStr ''b'') = Some (YStr ''t.y'')"
    using b len a bb by auto
next
  let ?cn = "[YStr ''a'', YStr ''b'', YStr ''a'']"
  let ?rs = "[YStr ''t.x'', YStr ''t.y'']"
  let ?k = "YMap [(YStr ''columns_names'', YSeq ?cn), (YStr ''refs'', YSeq ?rs)]"
  let ?f = "YMap [(YStr ''table_name'', YStr ''stats_line''), (YStr ''keys'', ?k),
                  (YStr ''measures'', YSeq [YStr ''montant''])]"
  have s1: "subscript (facts_doc ?cn ?rs) ''facts'' = Inr ?f"
    by (rule facts_doc_subscripts)
  have s2: "subscript ?f ''table_name'' = Inr (YStr ''stats_line'')"
    by (simp add: key_eq_def)
  have s3: "subscript ?f ''keys'' = Inr ?k"
    by (simp add: key_eq_def)
  have s4: "subscript ?k ''columns_names'' = Inr (YSeq ?cn)"
    by (simp add: key_eq_def)
  have s5: "subscript ?k ''refs'' = Inr (YSeq ?rs)"
    by (simp add: key_eq_def)
  have s6: "subscript ?f ''measures'' = Inr (YSeq [YStr ''montant''])"
    by (simp add: key_eq_def)
  have h7: "list_all hashable (take (length ?rs) ?cn)"
    by simp
  have h8: "\<not> distinct (map key_norm ?cn)"
    by simp
  obtain ks where b: "build_facts (facts_doc ?cn ?rs)
        = Inr \<lparr> table_name = YStr ''stats_line'', keys = ks, measures = YSeq [YStr ''montant''] \<rparr>"
    and len: "length ks < length ?cn"
    and last: "\<forall>i. i < min (length ?cn) (length ?rs)
                 \<and> (\<forall>j. i < j \<and> j < min (length ?cn) (length ?rs) \<longrightarrow> \<not> key_eq (?cn ! j) (?cn ! i))
                 \<longrightarrow> dict_get ks (?cn ! i) = Some (?rs ! i)"
    using facts_keys_duplicate_names [OF s1 s2 s3 s4 s5 s6 h7 h8] by blast
  have m: "min (length ?cn) (length ?rs) = 2" by simp
  have p0: "0 < (2::nat) \<and> (\<forall>j. 0 < j \<and> j < 2 \<longrightarrow> \<not> key_eq (?cn ! j) (?cn ! 0))"
  proof (intro conjI allI impI)
    show "0 < (2::nat)" by simp
  next
    fix j :: nat
    assume "0 < j \<and> j < 2"
    then have "j = 1" by arith
    then show "\<not> key_eq (?cn ! j) (?cn ! 0)" by (simp add: key_eq_def)
  qed
  have "dict_get ks (?cn ! 0) = Some (?rs ! 0)"
    using last [unfolded m, rule_format, OF p0] .
  then have a: "dict_get ks (YStr ''a'') = Some (YStr ''t.x'')" by simp
  have p1: "1 < (2::nat) \<and> (\<forall>j. 1 < j \<and> j < 2 \<longrightarrow> \<not> key_eq (?cn ! j) (?cn ! 1))"
    by auto
  have "dict_get ks (?cn ! 1) = Some (?rs ! 1)"
    using last [unfolded m, rule_format, OF p1] .
  then have bb: "dict_get ks (YStr ''b'') = Some (YStr ''t.y'')" by simp
  show "\<exists>ks. build_facts (facts_doc ?cn ?rs)
           = Inr \<lparr> table_name = YStr ''stats_line'', keys = ks, measures = YSeq [YStr ''montant''] \<rparr>
         \<and> length ks < 3
         \<and> dict_get ks (YStr ''a'') = Some (YStr ''t.x'')
         \<and> dict_get ks (YStr ''b'') = Some (YStr ''t.y'')"
    using b len a bb by auto
qed

text \<open>
  C10 as stated fails: in \<^verbatim>\<open>["a", "b", "a"]\<close> with the two references
  \<^verbatim>\<open>["t.x", "t.y"]\<close> the name \<^verbatim>\<open>a\<close> occurs twice, but its last occurrence is paired with
  no reference: nothing is overwritten, and \<^verbatim>\<open>a\<close> keeps the reference of its first
  occurrence.
\<close>

theorem facts_keys_duplicate_beyond_refs:
  "build_facts (facts_doc [YStr ''a'', YStr ''b'', YStr ''a''] [YStr ''t.x'', YStr ''t.y''])
     = Inr \<lparr> table_name = YStr ''stats_line'',
             keys = [(YStr ''a'', YStr ''t.x''), (YStr ''b'', YStr ''t.y'')],
             measures = YSeq [YStr ''montant''] \<rparr>"
  by (simp add: facts_doc_def build_facts_def py_zip_def key_eq_def)

subsection \<open>Building the cube\<close>

text \<open>
  C1. For a document of the valid shape in the configuration file, \<open>construct_cubes\<close>
  returns a list of exactly one \<^verbatim>\<open>Cube\<close>, whose \<^verbatim>\<open>name\<close> and \<^verbatim>\<open>source\<close> are the values
  under the top-level keys \<^verbatim>\<open>name\<close> and \<^verbatim>\<open>source\<close> of the document.
\<close>

theorem construct_cubes_one_cube:
  assumes "valid_document d"
    and "files w (get_config_file_path self) = Some (Document d)"
  shows "\<exists>c. snd (construct_cubes w self) = Inr [c]
           \<and> subscript d ''name'' = Inr (name c)
           \<and> subscript d ''source'' = Inr (source c)"
proof -
  obtain cm where d: "d = YMap cm" using assms(1) by (cases d) auto
  obtain n s where n: "dict_get cm (YStr ''name'') = Some n"
    and s: "dict_get cm (YStr ''source'') = Some s"
    using assms(1) d by auto
  obtain fs ds where b: "build_facts_dimensions d = Inr (d, fs, ds)"
    using valid_document_builds assms(1) d by blast
  have "snd (construct_cubes w self)
          = Inr [\<lparr> name = n, source = s, facts = fs, dimensions = ds \<rparr>]"
    using b d n s by (simp add: construct_cubes_present [OF assms(2)] build_cube_def)
  then show ?thesis using d n s by simp
qed

theorem construct_cubes_one_cube_witness:
  "valid_document labster
   \<and> (\<exists>c. snd (construct_cubes (example_world (Some (Document labster))) example_parser) = Inr [c]
         \<and> name c = YStr ''labster'' \<and> source c = YStr ''csv'')"
proof -
  have v: "valid_document labster"
    by (simp add: labster_def labster_body_def orgunit_dimension_def time_dimension_def key_eq_def)
  have f: "files (example_world (Some (Document labster))) (get_config_file_path example_parser)
             = Some (Document labster)"
    by (simp add: example_parser_path example_world_files)
  obtain c where "snd (construct_cubes (example_world (Some (Document labster))) example_parser) = Inr [c]"
    and "subscript labster ''name'' = Inr (name c)"
    and "subscript labster ''source'' = Inr (source c)"
    using construct_cubes_one_cube [OF v f] by blast
  then show ?thesis using v by (auto simp: labster_def key_eq_def)
qed

text \<open>
  C3. For a dimension entry with a \<^verbatim>\<open>columns\<close> sequence whose entries each have a
  (hashable) \<^verbatim>\<open>name\<close>, the \<^verbatim>\<open>Dimension\<close> is built and its \<^verbatim>\<open>columns\<close> is the ordered dict
  of the pairs that send each column's name to its \<^verbatim>\<open>column_new_name\<close> when there is one
  and to the name itself otherwise: looking a name up gives the value of its pair (of the
  last one, should a name be declared twice), the keys come in the order of their first
  declaration, and when the names are pairwise different the dict is exactly the list of
  pairs in declaration order. For \<^verbatim>\<open>[{name: type}, {name: nom, column_new_name: Name}]\<close>
  it is \<^verbatim>\<open>{type: type, nom: Name}\<close>. For an entry with no \<^verbatim>\<open>columns\<close> key it is empty.
\<close>

theorem dimension_columns:
  assumes "subscript entry ''dimension'' = Inr (YMap d)"
    and "dict_get d (YStr ''name'') = Some n"
    and "dict_get d (YStr ''displayName'') = Some dn"
  shows "(dict_get d (YStr ''columns'') = Some (YSeq cols)
            \<and> map spec_column cols = map Some pairs
            \<and> list_all hashable (map fst pairs) \<longrightarrow>
          (\<exists>cs. build_dimension entry
                  = Inr \<lparr> Dimension.name = n, displayName = dn, columns = cs \<rparr>
              \<and> (\<forall>key. dict_get cs key
                    = map_of (rev (zip (norm_keys pairs) (map snd pairs))) (key_norm key))
              \<and> norm_keys cs = rev (remdups (rev (norm_keys pairs)))
              \<and> (distinct (norm_keys pairs) \<longrightarrow> cs = pairs)))
       \<and> (dict_get d (YStr ''columns'') = None \<longrightarrow>
          build_dimension entry
            = Inr \<lparr> Dimension.name = n, displayName = dn, columns = [] \<rparr>)"
proof (intro conjI impI)
  assume h: "dict_get d (YStr ''columns'') = Some (YSeq cols)
            \<and> map spec_column cols = map Some pairs
            \<and> list_all hashable (map fst pairs)"
  let ?cs = "foldl (\<lambda>acc p. dict_set acc (fst p) (snd p)) [] pairs"
  have "dict_from column_pair [] cols = dict_from Inr [] pairs"
    using h by (simp add: dict_from_column_pair)
  also have "\<dots> = Inr ?cs"
    using h by (simp add: dict_from_Inr)
  finally have "build_dimension entry
            = Inr \<lparr> Dimension.name = n, displayName = dn, columns = ?cs \<rparr>"
    using h by (simp add: build_dimension_eq [OF assms])
  moreover have "\<forall>key. dict_get ?cs key
                    = map_of (rev (zip (norm_keys pairs) (map snd pairs))) (key_norm key)"
    by (simp add: dict_get_pairs)
  moreover have "norm_keys ?cs = rev (remdups (rev (norm_keys pairs)))"
    using norm_keys_foldl_order [of "[]" pairs] by simp
  moreover have "distinct (norm_keys pairs) \<longrightarrow> ?cs = pairs"
    using foldl_dict_set_distinct [of pairs "[]"] by simp
  ultimately show "\<exists>cs. build_dimension entry
                  = Inr \<lparr> Dimension.name = n, displayName = dn, columns = cs \<rparr>
              \<and> (\<forall>key. dict_get cs key
                    = map_of (rev (zip (norm_keys pairs) (map snd pairs))) (key_norm key))
              \<and> norm_keys cs = rev (remdups (rev (norm_keys pairs)))
              \<and> (distinct (norm_keys pairs) \<longrightarrow> cs = pairs)"
    by blast
next
  assume "dict_get d (YStr ''columns'') = None"
  then show "build_dimension entry
            = Inr \<lparr> Dimension.name = n, displayName = dn, columns = [] \<rparr>"
    by (simp add: build_dimension_eq [OF assms])
qed

theorem dimension_columns_witness:
  "build_dimension orgunit_dimension
     = Inr \<lparr> Dimension.name = YStr ''orgunit'', displayName = YStr ''Organisation'',
             columns = [(YStr ''type'', YStr ''type''), (YStr ''nom'', YStr ''Name'')] \<rparr>
   \<and> build_dimension time_dimension
     = Inr \<lparr> Dimension.name = YStr ''time'', displayName = YStr ''Time'', columns = [] \<rparr>"
  using dimension_columns [of orgunit_dimension
      "[(YStr ''name'', YStr ''orgunit''),
        (YStr ''displayName'', YStr ''Organisation''),
        (YStr ''columns'', YSeq
           [YMap [(YStr ''name'', YStr ''type'')],
            YMap [(YStr ''name'', YStr ''nom''), (YStr ''column_new_name'', YStr ''Name'')]])]"
      "YStr ''orgunit''" "YStr ''Organisation''"
      "[YMap [(YStr ''name'', YStr ''type'')],
        YMap [(YStr ''name'', YStr ''nom''), (YStr ''column_new_name'', YStr ''Name'')]]"
      "[(YStr ''type'', YStr ''type''), (YStr ''nom'', YStr ''Name'')]"]
    dimension_columns [of time_dimension
      "[(YStr ''name'', YStr ''time''), (YStr ''displayName'', YStr ''Time'')]"
      "YStr ''time''" "YStr ''Time''"]
  by (simp add: orgunit_dimension_def time_dimension_def key_eq_def)

end
